theory Spec2Isabelle
  imports Complex_Main "HOL-Library.Word"
begin

section \<open>Paths and the filesystem\<close>

text \<open>
  The plugin only ever asks the filesystem three questions: does a path exist
  (\<^verbatim>\<open>os.path.exists\<close>), is it a directory (\<^verbatim>\<open>os.path.isdir\<close>), and what is its
  canonical form (\<^verbatim>\<open>os.path.realpath\<close>). A filesystem is therefore a table of nodes
  together with the canonicalisation function. Paths are the strings the code
  passes around; the POSIX flavour of \<^verbatim>\<open>os.path\<close> is modelled.
\<close>

datatype node = File | Dir

record filesystem =
  nodes :: "string \<Rightarrow> node option"
  realpath :: "string \<Rightarrow> string"

text \<open>\<^verbatim>\<open>posixpath.join(a, b)\<close>: an absolute second component replaces the first.\<close>

definition os_path_join :: "string \<Rightarrow> string \<Rightarrow> string" where
  "os_path_join a b =
     (if b \<noteq> [] \<and> hd b = CHR ''/'' then b
      else if a = [] \<or> last a = CHR ''/'' then a @ b
      else a @ ''/'' @ b)"

definition os_path_pardir :: string where
  "os_path_pardir = ''..''"

text \<open>
  \<^verbatim>\<open>os.path.exists\<close> and \<^verbatim>\<open>os.path.isdir\<close> swallow the error of the underlying
  \<^verbatim>\<open>stat\<close> call and answer \<^verbatim>\<open>False\<close>; \<^verbatim>\<open>stat\<close> of the empty path always fails.
\<close>

definition os_path_exists :: "filesystem \<Rightarrow> string \<Rightarrow> bool" where
  "os_path_exists fs p = (p \<noteq> [] \<and> nodes fs p \<noteq> None)"

definition os_path_isdir :: "filesystem \<Rightarrow> string \<Rightarrow> bool" where
  "os_path_isdir fs p = (p \<noteq> [] \<and> nodes fs p = Some Dir)"

section \<open>The repo-root locator\<close>

text \<open>
  \<^verbatim>\<open>repo_root\<close> returns either \<^verbatim>\<open>False\<close> or the directory that holds the marker.
\<close>

datatype retval = RFalse | RDir string

record cache_entry =
  retval :: retval
  expires :: real

type_synonym root_cache = "string \<Rightarrow> cache_entry option"

text \<open>
  The \<^verbatim>\<open>while directory:\<close> loop of \<^verbatim>\<open>repo_root\<close>. Nothing in the code bounds the
  number of iterations, so the loop is a partial function: \<open>None\<close> is a walk that
  never ends. The second argument collects, in order, the directories whose
  marker was looked for; it is the only trace the walk leaves.
\<close>

partial_function (option) repo_root_walk ::
  "filesystem \<Rightarrow> string \<Rightarrow> string list \<Rightarrow> (retval \<times> string list) option" where
  "repo_root_walk fs directory visited =
     (if directory = [] then Some (RFalse, visited)
      else if os_path_exists fs (os_path_join directory ''.repo'')
        then Some (RDir directory, visited @ [directory])
      else let parent = realpath fs (os_path_join directory os_path_pardir)
        in if parent = directory then Some (RFalse, visited @ [directory])
           else repo_root_walk fs parent (visited @ [directory]))"

declare repo_root_walk.simps [code]

text \<open>
  \<^verbatim>\<open>repo_root(directory)\<close> with the module-level cache passed in and out. The two
  readings of \<^verbatim>\<open>time.time()\<close> are the arguments \<open>t_check\<close> (at the cache test) and
  \<open>t_store\<close> (when the entry is written). The result is the returned value, the
  cache afterwards and the directories the walk visited.
\<close>

definition repo_root ::
  "filesystem \<Rightarrow> real \<Rightarrow> real \<Rightarrow> root_cache \<Rightarrow> string \<Rightarrow> (retval \<times> root_cache \<times> string list) option" where
  "repo_root fs t_check t_store repo_root_cache directory =
     (let leaf_dir = directory in
      if (case repo_root_cache leaf_dir of None \<Rightarrow> False | Some e \<Rightarrow> expires e > t_check)
      then (case repo_root_cache leaf_dir of
              None \<Rightarrow> None
            | Some e \<Rightarrow> Some (retval e, repo_root_cache, []))
      else (case repo_root_walk fs directory [] of
              None \<Rightarrow> None
            | Some (rv, visited) \<Rightarrow>
                Some (rv,
                      repo_root_cache(leaf_dir \<mapsto> \<lparr>retval = rv, expires = t_store + 5\<rparr>),
                      visited)))"

text \<open>The directory reached after \<open>n\<close> steps upward, and what the walk tests there.\<close>

definition parent_of :: "filesystem \<Rightarrow> string \<Rightarrow> string" where
  "parent_of fs d = realpath fs (os_path_join d os_path_pardir)"

definition ancestor :: "filesystem \<Rightarrow> string \<Rightarrow> nat \<Rightarrow> string" where
  "ancestor fs d n = (parent_of fs ^^ n) d"

definition has_marker :: "filesystem \<Rightarrow> string \<Rightarrow> bool" where
  "has_marker fs d = os_path_exists fs (os_path_join d ''.repo'')"

definition is_fs_root :: "filesystem \<Rightarrow> string \<Rightarrow> bool" where
  "is_fs_root fs d = (parent_of fs d = d)"

definition cache_fresh :: "root_cache \<Rightarrow> string \<Rightarrow> real \<Rightarrow> bool" where
  "cache_fresh c d t = (case c d of None \<Rightarrow> False | Some e \<Rightarrow> expires e > t)"

text \<open>A small checkout used to run the definitions: \<^verbatim>\<open>/work\<close> holds the marker.\<close>

definition demo_fs :: filesystem where
  "demo_fs = \<lparr>
     nodes = (\<lambda>p. if p = ''/'' \<or> p = ''/work'' \<or> p = ''/work/.repo'' \<or> p = ''/work/src''
                     \<or> p = ''/tmp'' then Some Dir
                   else if p = ''/work/src/a.c'' then Some File
                   else None),
     realpath = (\<lambda>p. if p = ''/work/src/..'' then ''/work''
                      else if p = ''/work/..'' \<or> p = ''/tmp/..'' \<or> p = ''/..'' then ''/''
                      else p) \<rparr>"

section \<open>Python values, exceptions and codecs\<close>

text \<open>
  Captured process output is \<^verbatim>\<open>bytes\<close>; decoded text is a Python 3 \<^verbatim>\<open>str\<close>, a
  sequence of code points. Paths, argument vectors and setting values stay
  \<open>string\<close>s; \<open>str\<close> turns such a literal into text.
\<close>

type_synonym byte = "8 word"
type_synonym ustr = "nat list"

definition str :: "string \<Rightarrow> ustr" where
  "str s = map of_char s"

datatype pyval = PStr ustr | PBytes "byte list" | PInt int

datatype exn =
    UnicodeDecodeError
  | UnicodeEncodeError
  | LookupError
  | AttributeError
  | TypeError
  | KeyError string
  | OSError int ustr
  | CalledProcessError int
  | OtherException string

text \<open>
  \<^verbatim>\<open>bytes.decode(encoding)\<close> belongs to the interpreter, not to the plugin: it is a
  parameter of the model, from an encoding name and the bytes to the text or the
  exception raised.
\<close>

type_synonym codecs = "string \<Rightarrow> byte list \<Rightarrow> exn + ustr"

text \<open>
  \<^verbatim>\<open>getattr(text, 'decode')(encoding)\<close>: only \<^verbatim>\<open>bytes\<close> have the method in Python 3.
\<close>

definition getattr_decode :: "codecs \<Rightarrow> pyval \<Rightarrow> string \<Rightarrow> exn + ustr" where
  "getattr_decode dec text encoding =
     (case text of PBytes bs \<Rightarrow> dec encoding bs | _ \<Rightarrow> Inl AttributeError)"

text \<open>
  \<^verbatim>\<open>_make_text_safeish(text, fallback_encoding)\<close>. Next to the result stands the list
  of encodings that were tried, in order.
\<close>

definition make_text_safeish :: "codecs \<Rightarrow> pyval \<Rightarrow> string \<Rightarrow> (exn + ustr) \<times> string list" where
  "make_text_safeish dec text fallback_encoding =
     (case getattr_decode dec text ''utf-8'' of
        Inr unitext \<Rightarrow> (Inr unitext, [''utf-8''])
      | Inl e \<Rightarrow>
          if e = UnicodeEncodeError \<or> e = UnicodeDecodeError
          then (getattr_decode dec text fallback_encoding, [''utf-8'', fallback_encoding])
          else (Inl e, [''utf-8'']))"

text \<open>
  Two codecs of the standard library, to run the definitions on: strict UTF-8
  (no overlong forms, no surrogates, nothing above U+10FFFF) and Latin-1.
\<close>

definition is_cont :: "byte \<Rightarrow> bool" where
  "is_cont b = (0x80 \<le> b \<and> b \<le> 0xBF)"

definition cont_bits :: "byte \<Rightarrow> nat" where
  "cont_bits b = unat b - 0x80"

fun utf_8_decode :: "byte list \<Rightarrow> ustr option" where
  "utf_8_decode [] = Some []"
| "utf_8_decode (b0 # bs) =
     (if b0 < 0x80 then map_option ((#) (unat b0)) (utf_8_decode bs)
      else if 0xC2 \<le> b0 \<and> b0 \<le> 0xDF then
        (case bs of
           b1 # r \<Rightarrow>
             if is_cont b1
             then map_option ((#) ((unat b0 - 0xC0) * 64 + cont_bits b1)) (utf_8_decode r)
             else None
         | _ \<Rightarrow> None)
      else if 0xE0 \<le> b0 \<and> b0 \<le> 0xEF then
        (case bs of
           b1 # b2 # r \<Rightarrow>
             if is_cont b1 \<and> is_cont b2
                \<and> (b0 = 0xE0 \<longrightarrow> 0xA0 \<le> b1) \<and> (b0 = 0xED \<longrightarrow> b1 \<le> 0x9F)
             then map_option ((#) ((unat b0 - 0xE0) * 4096 + cont_bits b1 * 64 + cont_bits b2))
                    (utf_8_decode r)
             else None
         | _ \<Rightarrow> None)
      else if 0xF0 \<le> b0 \<and> b0 \<le> 0xF4 then
        (case bs of
           b1 # b2 # b3 # r \<Rightarrow>
             if is_cont b1 \<and> is_cont b2 \<and> is_cont b3
                \<and> (b0 = 0xF0 \<longrightarrow> 0x90 \<le> b1) \<and> (b0 = 0xF4 \<longrightarrow> b1 \<le> 0x8F)
             then map_option ((#) ((unat b0 - 0xF0) * 262144 + cont_bits b1 * 4096
                                   + cont_bits b2 * 64 + cont_bits b3))
                    (utf_8_decode r)
             else None
         | _ \<Rightarrow> None)
      else None)"

definition demo_codecs :: codecs where
  "demo_codecs encoding bs =
     (if encoding = ''utf-8'' then
        (case utf_8_decode bs of None \<Rightarrow> Inl UnicodeDecodeError | Some t \<Rightarrow> Inr t)
      else if encoding = ''latin-1'' \<or> encoding = ''iso-8859-1'' then Inr (map unat bs)
      else Inl LookupError)"

section \<open>The editor, the process environment and the plugin state\<close>

text \<open>
  The keyword arguments that travel from \<^verbatim>\<open>run_command\<close> to \<^verbatim>\<open>CommandThread\<close> and on
  to the callback: one optional field for each key the code reads.
\<close>

record kwargs =
  kw_working_dir :: "string option"
  kw_fallback_encoding :: "string option"
  kw_stdin :: "byte list option"
  kw_stdout :: "nat option"
  kw_status_message :: "string option"

definition no_kwargs :: kwargs where
  "no_kwargs = \<lparr>kw_working_dir = None, kw_fallback_encoding = None, kw_stdin = None,
                 kw_stdout = None, kw_status_message = None\<rparr>"

text \<open>
  A command object is a window command or a text command bound to its view;
  \<^verbatim>\<open>may_change_files\<close> is the class attribute.
\<close>

datatype kind = WindowCommand | TextCommand nat

record command_object =
  kind :: kind
  may_change_files :: bool

datatype callback = GenericDone command_object | ErrorMessage | Other string

text \<open>
  The parameters of \<^verbatim>\<open>run_command\<close>: the command, the five keyword parameters that
  have defaults, and the remaining keyword arguments.
\<close>

record run_args =
  ra_command :: "string list"
  ra_callback :: "callback option"
  ra_show_status :: bool
  ra_filter_empty_args :: bool
  ra_no_save :: bool
  ra_wait_for_lock :: bool
  ra_kwargs :: kwargs

text \<open>
  What \<^verbatim>\<open>sublime.set_timeout\<close> is handed: the \<^verbatim>\<open>functools.partial\<close> of \<^verbatim>\<open>main_thread\<close>
  and the re-armed \<^verbatim>\<open>do_when\<close> of the viewport restoration in \<^verbatim>\<open>generic_done\<close>. (The
  \<^verbatim>\<open>do_when\<close> of the lock wait never gets as far as the timer, see \<^verbatim>\<open>run_command\<close>.)
\<close>

datatype closure =
    Deliver callback pyval kwargs
  | DoWhenLoaded nat "nat \<times> nat"

record launch =
  l_argv :: "string list"
  l_cwd :: string
  l_stdin :: "byte list option"
  l_stdout :: "nat option"
  l_shell :: bool
  l_env :: "string \<Rightarrow> string option"

record command_thread =
  ct_command :: "string list"
  ct_on_done :: callback
  ct_working_dir :: string
  ct_stdin :: "byte list option"
  ct_stdout :: "nat option"
  ct_fallback_encoding :: string
  ct_kwargs :: kwargs

record view =
  file_name :: "string option"
  is_dirty :: bool
  is_loading :: bool
  buffer :: ustr
  read_only :: bool
  syntax_file :: string
  viewport_position :: "nat \<times> nat"
  fallback_encoding_setting :: "string option"
  live_repo_annotations :: bool

text \<open>
  What the plugin cannot change: the process environment, the interpreter's
  codecs, the outcome of \<^verbatim>\<open>os.chdir\<close> and of \<^verbatim>\<open>Popen\<close> with \<^verbatim>\<open>communicate\<close>, the
  executable resolved when the module was loaded (\<^verbatim>\<open>REPO\<close>) and the settings files.
\<close>

record host =
  environ :: "string \<Rightarrow> string option"
  os_name :: string
  platform :: string
  decode :: codecs
  chdir :: "string \<Rightarrow> exn option"
  popen :: "launch \<Rightarrow> exn + byte list option"
  REPO :: "string option"
  save_first :: bool
  repo_command :: "string option"
  repok_command :: "string option"
  repo_flow_command :: "string option"
  repo_binary :: "string option"

text \<open>
  The events a run leaves behind: every assignment to the global counter and
  every call of \<^verbatim>\<open>subprocess.Popen\<close>.
\<close>

datatype event = Counter int | Spawn launch

text \<open>
  The state: filesystem and clock, the two module globals, threads that were
  started and have not run yet, the timer queue of the editor, the views (the
  window's output panel \<^verbatim>\<open>repo\<close> is one of them), and what the editor shows.
\<close>

record world =
  disk :: filesystem
  now :: real
  repo_root_cache :: root_cache
  commands_working :: int
  trace :: "event list"
  threads :: "command_thread list"
  timeouts :: "(nat \<times> closure) list"
  views :: "nat \<Rightarrow> view"
  window_active_view :: "nat option"
  folders :: "string list"
  output_panel_repo :: nat
  shown_panel :: "string option"
  status_messages :: "string list"
  error_dialogs :: "pyval list"
  view_commands :: "(nat \<times> string) list"
  other_calls :: "(string \<times> pyval) list"

definition popen_calls :: "world \<Rightarrow> launch list" where
  "popen_calls w = concat (map (\<lambda>e. case e of Spawn l \<Rightarrow> [l] | Counter _ \<Rightarrow> []) (trace w))"

definition set_timeout :: "closure \<Rightarrow> nat \<Rightarrow> world \<Rightarrow> world" where
  "set_timeout f delay w = w\<lparr>timeouts := timeouts w @ [(delay, f)]\<rparr>"

definition main_thread :: "callback \<Rightarrow> pyval \<Rightarrow> kwargs \<Rightarrow> world \<Rightarrow> world" where
  "main_thread cb output kw w = set_timeout (Deliver cb output kw) 0 w"

text \<open>Python truthiness of a setting that is absent, empty or a path.\<close>

definition truthy :: "string option \<Rightarrow> bool" where
  "truthy v = (case v of None \<Rightarrow> False | Some s \<Rightarrow> s \<noteq> [])"

section \<open>The command runner\<close>

definition binary_not_found :: "string \<Rightarrow> ustr" where
  "binary_not_found path =
     str (''Repo binary could not be found in PATH\<newline>\<newline>''
          @ ''Consider using the repo_command setting for the Repo plugin\<newline>\<newline>''
          @ ''PATH is: '' @ path)"

text \<open>
  The environment and the arguments \<^verbatim>\<open>Popen\<close> is called with. On Windows a missing
  \<^verbatim>\<open>HOME\<close> is filled in from \<^verbatim>\<open>USERPROFILE\<close>, whose absence raises \<^verbatim>\<open>KeyError\<close>.
\<close>

definition popen_env :: "host \<Rightarrow> exn + (string \<Rightarrow> string option)" where
  "popen_env h =
     (if platform h = ''windows'' \<and> environ h ''HOME'' = None
      then (case environ h ''USERPROFILE'' of
              None \<Rightarrow> Inl (KeyError ''USERPROFILE'')
            | Some p \<Rightarrow> Inr (fun_upd (environ h) ''HOME'' (Some p)))
      else Inr (environ h))"

definition popen_args :: "host \<Rightarrow> command_thread \<Rightarrow> (string \<Rightarrow> string option) \<Rightarrow> launch" where
  "popen_args h self env =
     \<lparr>l_argv = ct_command self, l_cwd = ct_working_dir self,
      l_stdin = ct_stdin self, l_stdout = ct_stdout self,
      l_shell = (platform h = ''windows''), l_env = env\<rparr>"

text \<open>
  The \<^verbatim>\<open>try\<close> block of \<^verbatim>\<open>CommandThread.run\<close>: the state afterwards, the value of the
  variable \<^verbatim>\<open>output\<close> when the block is left, and the exception that left it, if any.
\<close>

definition run_try :: "host \<Rightarrow> command_thread \<Rightarrow> world \<Rightarrow> world \<times> pyval \<times> exn option" where
  "run_try h self w =
     (case (if ct_working_dir self \<noteq> [] then chdir h (ct_working_dir self) else None) of
        Some e \<Rightarrow> (w, PStr [], Some e)
      | None \<Rightarrow>
          (case popen_env h of
             Inl e \<Rightarrow> (w, PStr [], Some e)
           | Inr env \<Rightarrow>
               let w1 = w\<lparr>trace := trace w @ [Spawn (popen_args h self env)]\<rparr>
               in case popen h (popen_args h self env) of
                    Inl e \<Rightarrow> (w1, PStr [], Some e)
                  | Inr out \<Rightarrow>
                      let output = (case out of
                                      None \<Rightarrow> PStr []
                                    | Some bs \<Rightarrow> if bs = [] then PStr [] else PBytes bs)
                      in case fst (make_text_safeish (decode h) output (ct_fallback_encoding self)) of
                           Inl e \<Rightarrow> (w1, output, Some e)
                         | Inr unitext \<Rightarrow> (w1, PStr unitext, None)))"

text \<open>
  The \<^verbatim>\<open>except\<close> clauses: from the value of \<^verbatim>\<open>output\<close> and the exception to the
  callback, the value of \<^verbatim>\<open>output\<close> and the exception still pending when the
  \<^verbatim>\<open>finally\<close> clause starts.
\<close>

definition run_except ::
  "host \<Rightarrow> command_thread \<Rightarrow> pyval \<Rightarrow> exn option \<Rightarrow> callback \<times> pyval \<times> exn option" where
  "run_except h self output raised =
     (case raised of
        None \<Rightarrow> (ct_on_done self, output, None)
      | Some (CalledProcessError returncode) \<Rightarrow> (ct_on_done self, PInt returncode, None)
      | Some (OSError errno strerror) \<Rightarrow>
          if errno = 2 then
            (case environ h ''PATH'' of
               None \<Rightarrow> (ErrorMessage, output, Some (KeyError ''PATH''))
             | Some path \<Rightarrow> (ErrorMessage, PStr (binary_not_found path), None))
          else (ErrorMessage, PStr strerror, None)
      | Some e \<Rightarrow> (ct_on_done self, output, Some e))"

text \<open>
  The two statements of \<^verbatim>\<open>CommandThread.run\<close> that write the global counter: the
  increment before the \<^verbatim>\<open>try\<close> block, and the \<^verbatim>\<open>finally\<close> clause, which decrements it
  and hands the result to the main thread. Between the two the counter is what
  \<^verbatim>\<open>are_commands_working()\<close> reads on any other thread.
\<close>

definition are_commands_working :: "world \<Rightarrow> bool" where
  "are_commands_working w = (commands_working w \<noteq> 0)"

definition run_enter :: "world \<Rightarrow> world" where
  "run_enter w = w\<lparr>commands_working := commands_working w + 1,
                    trace := trace w @ [Counter (commands_working w + 1)]\<rparr>"

definition run_finally :: "command_thread \<Rightarrow> callback \<Rightarrow> pyval \<Rightarrow> world \<Rightarrow> world" where
  "run_finally self callback output w =
     main_thread callback output (ct_kwargs self)
       (w\<lparr>commands_working := commands_working w - 1,
          trace := trace w @ [Counter (commands_working w - 1)]\<rparr>)"

text \<open>
  \<^verbatim>\<open>CommandThread.run\<close>: the state afterwards and the exception that leaves the
  method, if any.
\<close>

definition run :: "host \<Rightarrow> command_thread \<Rightarrow> world \<Rightarrow> world \<times> exn option" where
  "run h self w =
     (if \<not> os_path_isdir (disk w) (ct_working_dir self) then (w, None)
      else
        let w0 = run_enter w;
            (w1, output, raised) = run_try h self w0;
            (callback, output', pending) = run_except h self output raised
        in (run_finally self callback output' w1, pending))"

section \<open>Views and the output panel\<close>

definition update_view :: "nat \<Rightarrow> (view \<Rightarrow> view) \<Rightarrow> world \<Rightarrow> world" where
  "update_view v f w = w\<lparr>views := (views w)(v := f (views w v))\<rparr>"

definition set_read_only :: "nat \<Rightarrow> bool \<Rightarrow> world \<Rightarrow> world" where
  "set_read_only v b = update_view v (\<lambda>x. x\<lparr>read_only := b\<rparr>)"

definition set_syntax_file :: "nat \<Rightarrow> string \<Rightarrow> world \<Rightarrow> world" where
  "set_syntax_file v syntax = update_view v (\<lambda>x. x\<lparr>syntax_file := syntax\<rparr>)"

definition set_viewport_position :: "nat \<Rightarrow> nat \<times> nat \<Rightarrow> world \<Rightarrow> world" where
  "set_viewport_position v position = update_view v (\<lambda>x. x\<lparr>viewport_position := position\<rparr>)"

text \<open>
  \<^verbatim>\<open>view.erase(edit, Region(a, b))\<close> and \<^verbatim>\<open>view.insert(edit, point, text)\<close>: the editor
  refuses both on a read-only view.
\<close>

definition view_erase :: "nat \<Rightarrow> nat \<Rightarrow> nat \<Rightarrow> world \<Rightarrow> world" where
  "view_erase v a b =
     update_view v (\<lambda>x. if read_only x then x
                         else x\<lparr>buffer := take a (buffer x) @ drop b (buffer x)\<rparr>)"

definition view_insert :: "nat \<Rightarrow> nat \<Rightarrow> ustr \<Rightarrow> world \<Rightarrow> world" where
  "view_insert v point s =
     update_view v (\<lambda>x. if read_only x then x
                         else x\<lparr>buffer := take point (buffer x) @ s @ drop point (buffer x)\<rparr>)"

text \<open>
  \<^verbatim>\<open>view.run_command(name)\<close> for a command of the editor itself (\<^verbatim>\<open>save\<close>, \<^verbatim>\<open>revert\<close>)
  or of another plugin (\<^verbatim>\<open>repo_annotate\<close>): the call is recorded, its effect is not
  modelled.
\<close>

definition view_run_command :: "nat \<Rightarrow> string \<Rightarrow> world \<Rightarrow> world" where
  "view_run_command v name w = w\<lparr>view_commands := view_commands w @ [(v, name)]\<rparr>"

text \<open>
  \<^verbatim>\<open>RepoScratchOutputCommand.run(edit, output, clear)\<close> on the view \<open>v\<close>. An output that
  is not text makes \<^verbatim>\<open>insert\<close> raise inside the command, which the editor reports
  and drops; the erasure has happened by then.
\<close>

definition repo_scratch_output_run :: "nat \<Rightarrow> pyval \<Rightarrow> bool \<Rightarrow> world \<Rightarrow> world" where
  "repo_scratch_output_run v output clear w =
     (let w1 = (if clear then view_erase v 0 (length (buffer (views w v))) w else w)
      in case output of PStr s \<Rightarrow> view_insert v 0 s w1 | _ \<Rightarrow> w1)"

text \<open>\<^verbatim>\<open>RepoCommand._output_to_view(output_file, output, clear, syntax)\<close>.\<close>

definition output_to_view :: "nat \<Rightarrow> pyval \<Rightarrow> bool \<Rightarrow> string \<Rightarrow> world \<Rightarrow> world" where
  "output_to_view output_file output clear syntax w =
     repo_scratch_output_run output_file output clear (set_syntax_file output_file syntax w)"

text \<open>
  \<^verbatim>\<open>RepoCommand.panel(output)\<close>. \<^verbatim>\<open>self.output_view\<close> is the view behind the window's
  output panel \<^verbatim>\<open>repo\<close>, whether it was just obtained or kept from an earlier call.
\<close>

definition panel :: "pyval \<Rightarrow> world \<Rightarrow> world" where
  "panel output w =
     (let output_view = output_panel_repo w;
          w1 = set_read_only output_view False w;
          w2 = output_to_view output_view output True ''Packages/Diff/Diff.tmLanguage'' w1;
          w3 = set_read_only output_view True w2
      in w3\<lparr>shown_panel := Some ''output.repo''\<rparr>)"

section \<open>Commands\<close>

text \<open>\<^verbatim>\<open>str.isspace\<close> of one code point, and \<^verbatim>\<open>str.strip()\<close>, \<^verbatim>\<open>bytes.strip()\<close>.\<close>

definition py_isspace :: "nat \<Rightarrow> bool" where
  "py_isspace c =
     ((9 \<le> c \<and> c \<le> 13) \<or> (28 \<le> c \<and> c \<le> 32) \<or> c = 0x85 \<or> c = 0xA0 \<or> c = 0x1680
      \<or> (0x2000 \<le> c \<and> c \<le> 0x200A) \<or> c = 0x2028 \<or> c = 0x2029 \<or> c = 0x202F
      \<or> c = 0x205F \<or> c = 0x3000)"

definition str_strip :: "ustr \<Rightarrow> ustr" where
  "str_strip s = rev (dropWhile py_isspace (rev (dropWhile py_isspace s)))"

definition bytes_isspace :: "byte \<Rightarrow> bool" where
  "bytes_isspace b = ((9 \<le> b \<and> b \<le> 13) \<or> b = 32)"

definition bytes_strip :: "byte list \<Rightarrow> byte list" where
  "bytes_strip s = rev (dropWhile bytes_isspace (rev (dropWhile bytes_isspace s)))"

text \<open>\<^verbatim>\<open>posixpath.dirname\<close>.\<close>

definition os_path_dirname :: "string \<Rightarrow> string" where
  "os_path_dirname p =
     (let head = rev (dropWhile (\<lambda>c. c \<noteq> CHR ''/'') (rev p))
      in if head \<noteq> [] \<and> (\<exists>c\<in>set head. c \<noteq> CHR ''/'')
         then rev (dropWhile (\<lambda>c. c = CHR ''/'') (rev head))
         else head)"

text \<open>\<^verbatim>\<open>s.rpartition(sep)\<close> for a separator of one character.\<close>

definition rpartition :: "char \<Rightarrow> string \<Rightarrow> string \<times> string \<times> string" where
  "rpartition sep s =
     (if sep \<in> set s
      then (rev (drop 1 (dropWhile (\<lambda>c. c \<noteq> sep) (rev s))), [sep],
            rev (takeWhile (\<lambda>c. c \<noteq> sep) (rev s)))
      else ([], [], s))"

text \<open>\<^verbatim>\<open>' '.join(command)\<close>.\<close>

fun join_space :: "string list \<Rightarrow> string" where
  "join_space [] = []"
| "join_space [x] = x"
| "join_space (x # y # ys) = x @ '' '' @ join_space (y # ys)"

text \<open>
  \<^verbatim>\<open>active_view()\<close>: the window's active view for a window command, the command's own
  view for a text command.
\<close>

definition active_view :: "command_object \<Rightarrow> world \<Rightarrow> nat option" where
  "active_view self w =
     (case kind self of WindowCommand \<Rightarrow> window_active_view w | TextCommand v \<Rightarrow> Some v)"

text \<open>\<^verbatim>\<open>RepoWindowCommand._active_file_name()\<close>.\<close>

definition active_file_name :: "world \<Rightarrow> string option" where
  "active_file_name w =
     (case window_active_view w of
        None \<Rightarrow> None
      | Some v \<Rightarrow> if truthy (file_name (views w v)) then file_name (views w v) else None)"

text \<open>
  \<^verbatim>\<open>get_working_dir()\<close> of \<^verbatim>\<open>RepoWindowCommand\<close> and of \<^verbatim>\<open>RepoTextCommand\<close>; the latter
  passes \<^verbatim>\<open>None\<close> to \<^verbatim>\<open>os.path.dirname\<close> when its view has no file, which raises.
\<close>

definition get_working_dir :: "command_object \<Rightarrow> world \<Rightarrow> exn + string" where
  "get_working_dir self w =
     (case kind self of
        WindowCommand \<Rightarrow>
          (case active_file_name w of
             Some f \<Rightarrow> Inr (realpath (disk w) (os_path_dirname f))
           | None \<Rightarrow> (case folders w of [] \<Rightarrow> Inr [] | d # _ \<Rightarrow> Inr d))
      | TextCommand v \<Rightarrow>
          (case file_name (views w v) of
             None \<Rightarrow> Inl TypeError
           | Some f \<Rightarrow> Inr (realpath (disk w) (os_path_dirname f))))"

text \<open>
  \<^verbatim>\<open>do_when(conditional, callback, ...)\<close> as the timer calls it: run the callback when
  the condition holds, otherwise hand the same closure to \<^verbatim>\<open>set_timeout\<close> again,
  50 ms later.
\<close>

definition do_when :: "(world \<Rightarrow> bool) \<Rightarrow> (world \<Rightarrow> 'a) \<Rightarrow> (world \<Rightarrow> 'a) \<Rightarrow> closure \<Rightarrow> world \<Rightarrow> 'a" where
  "do_when conditional callback later again w =
     (if conditional w then callback w else later (set_timeout again 50 w))"

text \<open>
  \<^verbatim>\<open>RepoCommand.generic_done(result)\<close>: the state afterwards and the exception
  raised, if any.
\<close>

definition generic_done :: "command_object \<Rightarrow> pyval \<Rightarrow> world \<Rightarrow> world \<times> exn option" where
  "generic_done self result w =
     (let (result1, w1) =
            (case active_view self w of
               None \<Rightarrow> (result, w)
             | Some v \<Rightarrow>
                 if may_change_files self \<and> truthy (file_name (views w v)) then
                   (if is_dirty (views w v)
                    then (PStr (str ''WARNING: Current view is dirty.\<newline>\<newline>''), w)
                    else
                      let position = viewport_position (views w v);
                          w' = view_run_command v ''revert'' w
                      in (result,
                          do_when (\<lambda>w. \<not> is_loading (views w v))
                                  (set_viewport_position v position) id
                                  (DoWhenLoaded v position) w'))
                 else (result, w))
      in case (case active_view self w1 of
                 None \<Rightarrow> Inr w1
               | Some v \<Rightarrow>
                   if live_repo_annotations (views w1 v) then
                     (case kind self of
                        WindowCommand \<Rightarrow> Inl AttributeError
                      | TextCommand sv \<Rightarrow> Inr (view_run_command sv ''repo_annotate'' w1))
                   else Inr w1) of
           Inl e \<Rightarrow> (w1, Some e)
         | Inr w2 \<Rightarrow>
             (case result1 of
                PStr s \<Rightarrow> if str_strip s = [] then (w2, None) else (panel result1 w2, None)
              | PBytes bs \<Rightarrow> if bytes_strip bs = [] then (w2, None) else (panel result1 w2, None)
              | PInt n \<Rightarrow> (w2, Some AttributeError)))"

text \<open>
  What the main thread does with a delivered result: \<^verbatim>\<open>generic_done\<close>, the error
  dialog (\<^verbatim>\<open>sublime.error_message\<close> takes no keyword arguments), or a callback of
  the caller, which is recorded.
\<close>

definition deliver :: "callback \<Rightarrow> pyval \<Rightarrow> kwargs \<Rightarrow> world \<Rightarrow> world \<times> exn option" where
  "deliver cb output kw w =
     (case cb of
        GenericDone self \<Rightarrow> generic_done self output w
      | ErrorMessage \<Rightarrow>
          if kw \<noteq> no_kwargs then (w, Some TypeError)
          else (w\<lparr>error_dialogs := error_dialogs w @ [output]\<rparr>, None)
      | Other name \<Rightarrow> (w\<lparr>other_calls := other_calls w @ [(name, output)]\<rparr>, None))"

text \<open>\<^verbatim>\<open>CommandThread.__init__(command, on_done, **kwargs)\<close>.\<close>

definition CommandThread :: "string list \<Rightarrow> callback \<Rightarrow> kwargs \<Rightarrow> command_thread" where
  "CommandThread command on_done kw =
     \<lparr>ct_command = command, ct_on_done = on_done,
      ct_working_dir = (case kw_working_dir kw of None \<Rightarrow> [] | Some d \<Rightarrow> d),
      ct_stdin = kw_stdin kw, ct_stdout = kw_stdout kw,
      ct_fallback_encoding = (case kw_fallback_encoding kw of None \<Rightarrow> [] | Some e \<Rightarrow> e),
      ct_kwargs = kw\<lparr>kw_working_dir := None, kw_fallback_encoding := None\<rparr>\<rparr>"

text \<open>\<^verbatim>\<open>thread.start()\<close>: the body runs later, on its own thread.\<close>

definition thread_start :: "command_thread \<Rightarrow> world \<Rightarrow> world" where
  "thread_start t w = w\<lparr>threads := threads w @ [t]\<rparr>"

text \<open>
  Python's \<^verbatim>\<open>a or b\<close> for a setting that may be absent or empty and a string.
\<close>

definition py_or :: "string option \<Rightarrow> string \<Rightarrow> string" where
  "py_or a b = (case a of None \<Rightarrow> b | Some s \<Rightarrow> if s = [] then b else s)"

text \<open>\<^verbatim>\<open>setting.rpartition('(')[2].rpartition(')')[0]\<close>.\<close>

definition fallback_encoding_name :: "string \<Rightarrow> string" where
  "fallback_encoding_name setting =
     fst (rpartition (CHR '')'') (snd (snd (rpartition (CHR ''('') setting))))"

text \<open>
  The first lines of \<^verbatim>\<open>run_command\<close>: the keyword arguments after \<^verbatim>\<open>working_dir\<close> and
  \<^verbatim>\<open>fallback_encoding\<close> have been filled in.
\<close>

definition run_command_kwargs :: "command_object \<Rightarrow> kwargs \<Rightarrow> world \<Rightarrow> exn + kwargs" where
  "run_command_kwargs self kw w =
     (case (if kw_working_dir kw = None
            then (case get_working_dir self w of
                    Inl e \<Rightarrow> Inl e
                  | Inr d \<Rightarrow> Inr (kw\<lparr>kw_working_dir := Some d\<rparr>))
            else Inr kw) of
        Inl e \<Rightarrow> Inl e
      | Inr kw1 \<Rightarrow>
          Inr (case active_view self w of
                 None \<Rightarrow> kw1
               | Some v \<Rightarrow>
                   if kw_fallback_encoding kw1 = None
                      \<and> truthy (fallback_encoding_setting (views w v))
                   then kw1\<lparr>kw_fallback_encoding :=
                              Some (fallback_encoding_name
                                      (py_or (fallback_encoding_setting (views w v)) []))\<rparr>
                   else kw1))"

text \<open>
  The three substitutions of \<^verbatim>\<open>command[0]\<close>, one after the other; \<^verbatim>\<open>command[0]\<close> of an
  empty list raises \<^verbatim>\<open>IndexError\<close>.
\<close>

definition substitute_command :: "host \<Rightarrow> string list \<Rightarrow> exn + string list" where
  "substitute_command h command =
     (case command of
        [] \<Rightarrow> Inl (OtherException ''IndexError'')
      | c0 # rest \<Rightarrow>
          let c1 = (if c0 = ''repo''
                    then (if truthy (repo_command h) \<or> truthy (repo_binary h)
                          then py_or (repo_command h) (py_or (repo_binary h) [])
                          else if truthy (REPO h) then py_or (REPO h) c0
                          else c0)
                    else c0);
              c2 = (if c1 = ''repok'' \<and> truthy (repok_command h)
                    then py_or (repok_command h) c1 else c1);
              c3 = (if c2 = ''repo-flow'' \<and> truthy (repo_flow_command h)
                    then py_or (repo_flow_command h) c2 else c2)
          in Inr (c3 # rest))"

text \<open>
  \<^verbatim>\<open>run_command\<close> from the line that loads the settings to its end: the optional
  save, the substitutions, the default callback, the thread and the status
  message.
\<close>

definition run_command_launch ::
  "host \<Rightarrow> command_object \<Rightarrow> string list \<Rightarrow> callback option \<Rightarrow> bool \<Rightarrow> bool \<Rightarrow> kwargs
   \<Rightarrow> world \<Rightarrow> world \<times> exn option" where
  "run_command_launch h self command callback show_status no_save kw w =
     (let w1 = (case active_view self w of
                  None \<Rightarrow> w
                | Some v \<Rightarrow>
                    if save_first h \<and> is_dirty (views w v) \<and> \<not> no_save
                    then view_run_command v ''save'' w else w)
      in case substitute_command h command of
           Inl e \<Rightarrow> (w1, Some e)
         | Inr command' \<Rightarrow>
             let callback' = (case callback of None \<Rightarrow> GenericDone self | Some cb \<Rightarrow> cb);
                 w2 = thread_start (CommandThread command' callback' kw) w1
             in if show_status
                then (w2\<lparr>status_messages := status_messages w2
                            @ [py_or (kw_status_message kw) (join_space command')]\<rparr>, None)
                else (w2, None))"

text \<open>\<^verbatim>\<open>os.path.join(root, '.repo', 'index.lock')\<close>.\<close>

definition index_lock :: "string \<Rightarrow> string" where
  "index_lock root_dir = os_path_join (os_path_join root_dir ''.repo'') ''index.lock''"

text \<open>
  \<^verbatim>\<open>RepoCommand.run_command\<close>. \<open>None\<close> is a call that never returns, which only the
  walk of \<^verbatim>\<open>repo_root\<close> can cause; otherwise the result is the state afterwards and
  the exception raised, if any.

  When the lock marker is found, the method calls
  \<^verbatim>\<open>do_when(<lambda>, self.run_command, command, callback=callback, ...)\<close>. The second
  positional argument already binds the parameter \<^verbatim>\<open>callback\<close> of
  \<^verbatim>\<open>do_when(conditional, callback, *args, **kwargs)\<close>, and the keyword \<^verbatim>\<open>callback=\<close> names
  the same parameter again, so the call raises \<^verbatim>\<open>TypeError\<close> (multiple values for
  argument \<^verbatim>\<open>callback\<close>) before the body of \<^verbatim>\<open>do_when\<close> is entered: the condition is not
  tested, no timer is set, and the exception leaves \<^verbatim>\<open>run_command\<close>. The message
  printed on the console just before is not modelled.
\<close>

definition run_command ::
  "host \<Rightarrow> command_object \<Rightarrow> run_args \<Rightarrow> world \<Rightarrow> (world \<times> exn option) option" where
  "run_command h self args w =
     (let command = (if ra_filter_empty_args args
                     then filter (\<lambda>arg. arg \<noteq> []) (ra_command args)
                     else ra_command args)
      in case run_command_kwargs self (ra_kwargs args) w of
           Inl e \<Rightarrow> Some (w, Some e)
         | Inr kw \<Rightarrow>
             (case get_working_dir self w of
                Inl e \<Rightarrow> Some (w, Some e)
              | Inr wd \<Rightarrow>
                  (case repo_root (disk w) (now w) (now w) (repo_root_cache w) wd of
                     None \<Rightarrow> None
                   | Some (root_val, cache, visited) \<Rightarrow>
                       let w1 = w\<lparr>repo_root_cache := cache\<rparr>;
                           root_dir = (case root_val of RFalse \<Rightarrow> [] | RDir d \<Rightarrow> d)
                       in if ra_wait_for_lock args \<and> root_dir \<noteq> []
                             \<and> os_path_exists (disk w1) (index_lock root_dir)
                          then Some (w1, Some TypeError)
                          else Some (run_command_launch h self command (ra_callback args)
                                       (ra_show_status args) (ra_no_save args) kw w1))))"

text \<open>
  The editor and the interpreter at work. \<open>run_thread h i\<close> runs the body of the
  \<open>i\<close>-th thread that was started and has not run yet; \<open>fire h i\<close> lets the \<open>i\<close>-th
  pending timer expire and calls what it holds. The order in which they happen
  is left to the caller.
\<close>

definition run_thread :: "host \<Rightarrow> nat \<Rightarrow> world \<Rightarrow> world \<times> exn option" where
  "run_thread h i w =
     (if i < length (threads w)
      then run h (threads w ! i) (w\<lparr>threads := take i (threads w) @ drop (Suc i) (threads w)\<rparr>)
      else (w, None))"

definition fire :: "host \<Rightarrow> nat \<Rightarrow> world \<Rightarrow> world \<times> exn option" where
  "fire h i w =
     (if i < length (timeouts w)
      then
        let w1 = w\<lparr>timeouts := take i (timeouts w) @ drop (Suc i) (timeouts w)\<rparr>
        in case snd (timeouts w ! i) of
             Deliver cb output kw \<Rightarrow> deliver cb output kw w1
           | DoWhenLoaded v position \<Rightarrow>
               do_when (\<lambda>w. \<not> is_loading (views w v))
                       (\<lambda>w. (set_viewport_position v position w, None)) (\<lambda>w. (w, None))
                       (DoWhenLoaded v position) w1
      else (w, None))"

text \<open>
  \<^verbatim>\<open>RepoSyncCommand.run(edit)\<close> of the command bound to the view \<open>v\<close>: the defaults of
  \<^verbatim>\<open>run_command\<close> for everything but the command.
\<close>

definition default_args :: "string list \<Rightarrow> run_args" where
  "default_args command =
     \<lparr>ra_command = command, ra_callback = None, ra_show_status = True,
      ra_filter_empty_args = True, ra_no_save = False, ra_wait_for_lock = True,
      ra_kwargs = no_kwargs\<rparr>"

definition RepoSyncCommand :: "nat \<Rightarrow> command_object" where
  "RepoSyncCommand v = \<lparr>kind = TextCommand v, may_change_files = False\<rparr>"

definition RepoSyncCommand_run :: "host \<Rightarrow> nat \<Rightarrow> world \<Rightarrow> (world \<times> exn option) option" where
  "RepoSyncCommand_run h v w =
     (let command = [''repo'', ''sync'']
      in run_command h (RepoSyncCommand v) (default_args command) w)"

section \<open>A host and a state to run the definitions on\<close>

definition ok_output :: "byte list" where
  "ok_output = [0x64, 0x6F, 0x6E, 0x65, 0x0A]"

definition demo_popen :: "launch \<Rightarrow> exn + byte list option" where
  "demo_popen l =
     (if l_argv l = [] then Inl (OtherException ''IndexError'')
      else if hd (l_argv l) = ''/usr/local/bin/repo'' then
        (if tl (l_argv l) = [''version''] then Inr (Some [0x20, 0x0A]) else Inr (Some ok_output))
      else if hd (l_argv l) = ''/opt/repo'' then Inr (Some ok_output)
      else if hd (l_argv l) = ''/etc/passwd'' then Inl (OSError 13 (str ''Permission denied''))
      else Inl (OSError 2 (str ''No such file or directory'')))"

definition demo_host :: host where
  "demo_host = \<lparr>
     environ = (\<lambda>k. if k = ''PATH'' then Some ''/usr/bin:/bin''
                     else if k = ''HOME'' then Some ''/home/dev'' else None),
     os_name = ''posix'',
     platform = ''linux'',
     decode = demo_codecs,
     chdir = (\<lambda>d. None),
     popen = demo_popen,
     REPO = Some ''/usr/local/bin/repo'',
     save_first = False,
     repo_command = None,
     repok_command = None,
     repo_flow_command = None,
     repo_binary = None \<rparr>"

definition blank_view :: view where
  "blank_view = \<lparr>file_name = None, is_dirty = False, is_loading = False, buffer = [],
                  read_only = False, syntax_file = [], viewport_position = (0, 0),
                  fallback_encoding_setting = None, live_repo_annotations = False\<rparr>"

definition demo_world :: world where
  "demo_world = \<lparr>
     disk = demo_fs,
     now = 0,
     repo_root_cache = Map.empty,
     commands_working = 0,
     trace = [],
     threads = [],
     timeouts = [],
     views = (\<lambda>i. if i = 1 then blank_view\<lparr>file_name := Some ''/work/src/a.c''\<rparr>
                    else if i = 0 then blank_view\<lparr>buffer := str ''old output'', read_only := True\<rparr>
                    else blank_view),
     window_active_view = Some 1,
     folders = [''/work''],
     output_panel_repo = 0,
     shown_panel = None,
     status_messages = [],
     error_dialogs = [],
     view_commands = [],
     other_calls = [] \<rparr>"

definition demo_thread :: "string list \<Rightarrow> string \<Rightarrow> command_thread" where
  "demo_thread argv wd =
     \<lparr>ct_command = argv, ct_on_done = Other ''on_done'', ct_working_dir = wd,
      ct_stdin = None, ct_stdout = None, ct_fallback_encoding = [], ct_kwargs = no_kwargs\<rparr>"

text \<open>A directory \<^verbatim>\<open>/p\<close> that holds a regular file named \<^verbatim>\<open>.repo\<close>.\<close>

definition file_marker_fs :: filesystem where
  "file_marker_fs = \<lparr>
     nodes = (\<lambda>p. if p = ''/'' \<or> p = ''/p'' then Some Dir
                   else if p = ''/p/.repo'' then Some File
                   else None),
     realpath = (\<lambda>p. if p = ''/p/..'' \<or> p = ''/..'' then ''/'' else p) \<rparr>"

text \<open>The same checkout while the external program holds its index lock.\<close>

definition locked_fs :: filesystem where
  "locked_fs = demo_fs\<lparr>nodes := (nodes demo_fs)(''/work/.repo/index.lock'' := Some File)\<rparr>"

definition locked_world :: world where
  "locked_world = demo_world\<lparr>disk := locked_fs\<rparr>"

text \<open>A window with no view and no folder.\<close>

definition empty_window :: world where
  "empty_window = demo_world\<lparr>window_active_view := None, folders := []\<rparr>"

section \<open>Properties of the repo-root locator\<close>

lemma ancestor_0: "ancestor fs d 0 = d"
  by (simp add: ancestor_def)

lemma ancestor_Suc: "ancestor fs d (Suc n) = ancestor fs (parent_of fs d) n"
  by (simp add: ancestor_def funpow_swap1)

lemma ancestor_shift:
  "map (ancestor fs d) [0..<Suc m] = d # map (ancestor fs (parent_of fs d)) [0..<m]"
proof -
  have "[0..<Suc m] = 0 # [Suc 0..<Suc m]"
    by (rule upt_conv_Cons) simp
  also have "[Suc 0..<Suc m] = map Suc [0..<m]"
    by (rule map_Suc_upt [symmetric])
  finally have "[0..<Suc m] = 0 # map Suc [0..<m]" .
  then show ?thesis
    by (simp only: list.map map_map o_def ancestor_Suc ancestor_0)
qed

lemma walk_absent:
  "is_fs_root fs (ancestor fs d n) \<Longrightarrow> \<forall>j\<le>n. \<not> has_marker fs (ancestor fs d j)
   \<Longrightarrow> \<exists>m\<le>Suc n. repo_root_walk fs d tr0 = Some (RFalse, tr0 @ map (ancestor fs d) [0..<m])"
proof (induction n arbitrary: d tr0)
  case 0
  have nm: "\<not> has_marker fs d" and root: "parent_of fs d = d"
    using "0.prems" by (simp_all add: ancestor_0 is_fs_root_def)
  show ?case
  proof (cases "d = []")
    case True
    then have "repo_root_walk fs d tr0 = Some (RFalse, tr0 @ map (ancestor fs d) [0..<0])"
      by (subst repo_root_walk.simps) simp
    then show ?thesis by blast
  next
    case False
    then have "repo_root_walk fs d tr0 = Some (RFalse, tr0 @ map (ancestor fs d) [0..<Suc 0])"
      using nm root
      by (subst repo_root_walk.simps)
         (simp add: has_marker_def parent_of_def [symmetric] ancestor_0)
    then show ?thesis by blast
  qed
next
  case (Suc n)
  have nm: "\<not> has_marker fs d"
    using Suc.prems(2) [rule_format, of 0] by (simp add: ancestor_0)
  have root': "is_fs_root fs (ancestor fs (parent_of fs d) n)"
    using Suc.prems(1) by (simp add: ancestor_Suc)
  have nm': "\<forall>j\<le>n. \<not> has_marker fs (ancestor fs (parent_of fs d) j)"
  proof (intro allI impI)
    fix j assume "j \<le> n"
    then show "\<not> has_marker fs (ancestor fs (parent_of fs d) j)"
      using Suc.prems(2) [rule_format, of "Suc j"] by (simp add: ancestor_Suc)
  qed
  consider (empty) "d = []" | (root) "d \<noteq> []" "parent_of fs d = d"
    | (up) "d \<noteq> []" "parent_of fs d \<noteq> d"
    by blast
  then show ?case
  proof cases
    case empty
    then have "repo_root_walk fs d tr0 = Some (RFalse, tr0 @ map (ancestor fs d) [0..<0])"
      by (subst repo_root_walk.simps) simp
    then show ?thesis by blast
  next
    case root
    then have "repo_root_walk fs d tr0 = Some (RFalse, tr0 @ map (ancestor fs d) [0..<Suc 0])"
      using nm
      by (subst repo_root_walk.simps)
         (simp add: has_marker_def parent_of_def [symmetric] ancestor_0)
    then show ?thesis by blast
  next
    case up
    obtain m where m: "m \<le> Suc n"
      and w: "repo_root_walk fs (parent_of fs d) (tr0 @ [d]) =
            Some (RFalse, (tr0 @ [d]) @ map (ancestor fs (parent_of fs d)) [0..<m])"
      using Suc.IH [OF root' nm'] by blast
    have "repo_root_walk fs d tr0 = Some (RFalse, tr0 @ map (ancestor fs d) [0..<Suc m])"
      using up nm w
      by (subst repo_root_walk.simps)
         (simp add: has_marker_def parent_of_def [symmetric] ancestor_shift del: upt_Suc)
    with m show ?thesis by (intro exI [of _ "Suc m"]) simp
  qed
qed

lemma walk_found:
  "has_marker fs (ancestor fs d n) \<Longrightarrow> \<forall>j<n. \<not> has_marker fs (ancestor fs d j)
   \<Longrightarrow> \<forall>j\<le>n. ancestor fs d j \<noteq> []
   \<Longrightarrow> repo_root_walk fs d tr0 = Some (RDir (ancestor fs d n), tr0 @ map (ancestor fs d) [0..<Suc n])"
proof (induction n arbitrary: d tr0)
  case 0
  then show ?case
    by (subst repo_root_walk.simps) (simp add: ancestor_0 has_marker_def)
next
  case (Suc n)
  have nm: "\<not> has_marker fs d"
    using Suc.prems(2) [rule_format, of 0] by (simp add: ancestor_0)
  have ne: "d \<noteq> []"
    using Suc.prems(3) [rule_format, of 0] by (simp add: ancestor_0)
  have m': "has_marker fs (ancestor fs (parent_of fs d) n)"
    using Suc.prems(1) by (simp add: ancestor_Suc)
  have nm': "\<forall>j<n. \<not> has_marker fs (ancestor fs (parent_of fs d) j)"
  proof (intro allI impI)
    fix j assume "j < n"
    then show "\<not> has_marker fs (ancestor fs (parent_of fs d) j)"
      using Suc.prems(2) [rule_format, of "Suc j"] by (simp add: ancestor_Suc)
  qed
  have ne': "\<forall>j\<le>n. ancestor fs (parent_of fs d) j \<noteq> []"
  proof (intro allI impI)
    fix j assume "j \<le> n"
    then show "ancestor fs (parent_of fs d) j \<noteq> []"
      using Suc.prems(3) [rule_format, of "Suc j"] by (simp add: ancestor_Suc)
  qed
  have fix_all: "parent_of fs d = d \<Longrightarrow> ancestor fs d k = d" for k
    by (induction k) (simp_all add: ancestor_0 ancestor_Suc)
  have notroot: "parent_of fs d \<noteq> d"
  proof
    assume "parent_of fs d = d"
    then have "ancestor fs d (Suc n) = d" by (rule fix_all)
    with Suc.prems(1) nm show False by simp
  qed
  have IH: "repo_root_walk fs (parent_of fs d) (tr0 @ [d]) =
      Some (RDir (ancestor fs (parent_of fs d) n),
            (tr0 @ [d]) @ map (ancestor fs (parent_of fs d)) [0..<Suc n])"
    by (rule Suc.IH [OF m' nm' ne'])
  have shift: "map (ancestor fs d) [0..<Suc (Suc n)] =
      d # map (ancestor fs (parent_of fs d)) [0..<Suc n]"
    by (rule ancestor_shift)
  show ?case
    using nm ne notroot IH
    by (subst repo_root_walk.simps)
       (simp add: has_marker_def parent_of_def [symmetric] Let_def ancestor_Suc shift
             del: upt_Suc)
qed

lemma repo_root_miss:
  "\<not> cache_fresh c d t_check \<Longrightarrow> repo_root_walk fs d [] = Some (rv, tr)
   \<Longrightarrow> repo_root fs t_check t_store c d =
        Some (rv, c(d \<mapsto> \<lparr>retval = rv, expires = t_store + 5\<rparr>), tr)"
  by (simp add: repo_root_def cache_fresh_def)

lemma demo_parent_src: "parent_of demo_fs ''/work/src'' = ''/work''"
  by (simp add: parent_of_def demo_fs_def os_path_join_def os_path_pardir_def)

lemma demo_parent_tmp: "parent_of demo_fs ''/tmp'' = ''/''"
  by (simp add: parent_of_def demo_fs_def os_path_join_def os_path_pardir_def)

lemma demo_parent_root: "parent_of demo_fs ''/'' = ''/''"
  by (simp add: parent_of_def demo_fs_def os_path_join_def os_path_pardir_def)

lemma demo_markers:
  "has_marker demo_fs ''/work''" "\<not> has_marker demo_fs ''/work/src''"
  "\<not> has_marker demo_fs ''/tmp''" "\<not> has_marker demo_fs ''/''"
  by (simp_all add: has_marker_def os_path_exists_def os_path_join_def demo_fs_def)

text \<open>
  C3, for a lookup that is not answered from the cache (no entry under the input
  string, or an expired one): \<^verbatim>\<open>repo_root\<close> visits the directory, its resolved
  parent, the parent's parent and so on, testing each for an entry named \<^verbatim>\<open>.repo\<close>.
  The test is \<^verbatim>\<open>os.path.exists\<close>, so the marker \<open>has_marker\<close> speaks of is an entry of
  any kind, a directory or a file. If the chain reaches the filesystem root (the
  directory that is its own resolved parent) and no directory up to and
  including it holds the marker, the result is \<^verbatim>\<open>False\<close> and only directories of
  the chain were visited; if the \<open>n\<close>-th directory of the chain is the first that
  holds the marker, the result is that directory and exactly the chain up to it
  was visited.
\<close>

theorem repo_root_walks_upward:
  assumes miss: "\<not> cache_fresh c d t_check"
  shows "(is_fs_root fs (ancestor fs d n) \<and> (\<forall>j\<le>n. \<not> has_marker fs (ancestor fs d j))
            \<longrightarrow> (\<exists>m\<le>Suc n. repo_root fs t_check t_store c d =
                   Some (RFalse, c(d \<mapsto> \<lparr>retval = RFalse, expires = t_store + 5\<rparr>),
                         map (ancestor fs d) [0..<m])))
       \<and> (has_marker fs (ancestor fs d n) \<and> (\<forall>j<n. \<not> has_marker fs (ancestor fs d j))
            \<and> (\<forall>j\<le>n. ancestor fs d j \<noteq> [])
            \<longrightarrow> repo_root fs t_check t_store c d =
                   Some (RDir (ancestor fs d n),
                         c(d \<mapsto> \<lparr>retval = RDir (ancestor fs d n), expires = t_store + 5\<rparr>),
                         map (ancestor fs d) [0..<Suc n]))"
proof (intro conjI impI)
  assume a: "is_fs_root fs (ancestor fs d n) \<and> (\<forall>j\<le>n. \<not> has_marker fs (ancestor fs d j))"
  then obtain m where m: "m \<le> Suc n"
    and w: "repo_root_walk fs d [] = Some (RFalse, [] @ map (ancestor fs d) [0..<m])"
    using walk_absent [of fs d n "[]"] by blast
  from w have "repo_root_walk fs d [] = Some (RFalse, map (ancestor fs d) [0..<m])"
    by simp
  from repo_root_miss [OF miss this] m
  show "\<exists>m\<le>Suc n. repo_root fs t_check t_store c d =
          Some (RFalse, c(d \<mapsto> \<lparr>retval = RFalse, expires = t_store + 5\<rparr>),
                map (ancestor fs d) [0..<m])"
    by blast
next
  assume a: "has_marker fs (ancestor fs d n) \<and> (\<forall>j<n. \<not> has_marker fs (ancestor fs d j))
            \<and> (\<forall>j\<le>n. ancestor fs d j \<noteq> [])"
  then have "repo_root_walk fs d [] =
      Some (RDir (ancestor fs d n), [] @ map (ancestor fs d) [0..<Suc n])"
    by (intro walk_found) blast+
  then have "repo_root_walk fs d [] =
      Some (RDir (ancestor fs d n), map (ancestor fs d) [0..<Suc n])"
    by (simp del: upt_Suc)
  from repo_root_miss [OF miss this]
  show "repo_root fs t_check t_store c d =
          Some (RDir (ancestor fs d n),
                c(d \<mapsto> \<lparr>retval = RDir (ancestor fs d n), expires = t_store + 5\<rparr>),
                map (ancestor fs d) [0..<Suc n])" .
qed

theorem repo_root_walks_upward_witness:
  "repo_root demo_fs 0 0 Map.empty ''/work/src'' =
     Some (RDir ''/work'',
           [''/work/src'' \<mapsto> \<lparr>retval = RDir ''/work'', expires = 5\<rparr>],
           [''/work/src'', ''/work''])
   \<and> (\<exists>tr. repo_root demo_fs 0 0 Map.empty ''/tmp'' =
           Some (RFalse, [''/tmp'' \<mapsto> \<lparr>retval = RFalse, expires = 5\<rparr>], tr))"
proof
  have miss: "\<not> cache_fresh Map.empty ''/work/src'' 0"
    by (simp add: cache_fresh_def)
  have a1: "ancestor demo_fs ''/work/src'' (Suc 0) = ''/work''"
    by (simp add: ancestor_Suc ancestor_0 demo_parent_src)
  have hyp: "has_marker demo_fs (ancestor demo_fs ''/work/src'' (Suc 0))
      \<and> (\<forall>j<Suc 0. \<not> has_marker demo_fs (ancestor demo_fs ''/work/src'' j))
      \<and> (\<forall>j\<le>Suc 0. ancestor demo_fs ''/work/src'' j \<noteq> [])"
    by (simp add: a1 ancestor_0 demo_markers le_Suc_eq)
  from repo_root_walks_upward [OF miss, of demo_fs "Suc 0" 0, THEN conjunct2, rule_format, OF hyp]
  show "repo_root demo_fs 0 0 Map.empty ''/work/src'' =
     Some (RDir ''/work'',
           [''/work/src'' \<mapsto> \<lparr>retval = RDir ''/work'', expires = 5\<rparr>],
           [''/work/src'', ''/work''])"
    by (simp add: a1 ancestor_0 upt_rec [of 0] upt_rec [of "Suc 0"])
next
  have miss: "\<not> cache_fresh Map.empty ''/tmp'' 0"
    by (simp add: cache_fresh_def)
  have a1: "ancestor demo_fs ''/tmp'' (Suc 0) = ''/''"
    by (simp add: ancestor_Suc ancestor_0 demo_parent_tmp)
  have hyp: "is_fs_root demo_fs (ancestor demo_fs ''/tmp'' (Suc 0))
      \<and> (\<forall>j\<le>Suc 0. \<not> has_marker demo_fs (ancestor demo_fs ''/tmp'' j))"
    by (simp add: a1 ancestor_0 demo_markers le_Suc_eq is_fs_root_def demo_parent_root)
  from repo_root_walks_upward [OF miss, of demo_fs "Suc 0" 0, THEN conjunct1, rule_format, OF hyp]
  show "\<exists>tr. repo_root demo_fs 0 0 Map.empty ''/tmp'' =
           Some (RFalse, [''/tmp'' \<mapsto> \<lparr>retval = RFalse, expires = 5\<rparr>], tr)"
    by auto
qed

text \<open>
  Against C3 as stated: the marker test is \<^verbatim>\<open>os.path.exists\<close>, so a regular file named
  \<^verbatim>\<open>.repo\<close> makes \<^verbatim>\<open>/p\<close> the result, although neither \<^verbatim>\<open>/p\<close> nor the filesystem root
  holds a marker subdirectory; and a lookup that the cache answers returns the
  stored \<^verbatim>\<open>False\<close> for \<^verbatim>\<open>/work\<close>, although \<^verbatim>\<open>/work\<close> holds the marker subdirectory.
\<close>

theorem repo_root_marker_counterexample:
  "nodes file_marker_fs ''/p/.repo'' = Some File
   \<and> \<not> os_path_isdir file_marker_fs (os_path_join ''/p'' ''.repo'')
   \<and> \<not> os_path_isdir file_marker_fs (os_path_join ''/'' ''.repo'')
   \<and> repo_root file_marker_fs 0 0 Map.empty ''/p''
       = Some (RDir ''/p'', [''/p'' \<mapsto> \<lparr>retval = RDir ''/p'', expires = 5\<rparr>], [''/p''])
   \<and> os_path_isdir demo_fs (os_path_join ''/work'' ''.repo'')
   \<and> repo_root demo_fs 1 1 [''/work'' \<mapsto> \<lparr>retval = RFalse, expires = 2\<rparr>] ''/work''
       = Some (RFalse, [''/work'' \<mapsto> \<lparr>retval = RFalse, expires = 2\<rparr>], [])"
proof -
  have w: "repo_root_walk file_marker_fs ''/p'' [] = Some (RDir ''/p'', [''/p''])"
    by (subst repo_root_walk.simps)
       (simp add: os_path_exists_def os_path_join_def file_marker_fs_def)
  have miss: "\<not> cache_fresh Map.empty ''/p'' 0"
    by (simp add: cache_fresh_def)
  have a: "repo_root file_marker_fs 0 0 Map.empty ''/p''
       = Some (RDir ''/p'', [''/p'' \<mapsto> \<lparr>retval = RDir ''/p'', expires = 5\<rparr>], [''/p''])"
    using repo_root_miss [OF miss w, of 0] by simp
  have b: "repo_root demo_fs 1 1 [''/work'' \<mapsto> \<lparr>retval = RFalse, expires = 2\<rparr>] ''/work''
       = Some (RFalse, [''/work'' \<mapsto> \<lparr>retval = RFalse, expires = 2\<rparr>], [])"
    by (simp add: repo_root_def)
  have c: "nodes file_marker_fs ''/p/.repo'' = Some File"
    "\<not> os_path_isdir file_marker_fs (os_path_join ''/p'' ''.repo'')"
    "\<not> os_path_isdir file_marker_fs (os_path_join ''/'' ''.repo'')"
    "os_path_isdir demo_fs (os_path_join ''/work'' ''.repo'')"
    by (simp_all add: os_path_isdir_def os_path_join_def file_marker_fs_def demo_fs_def)
  show ?thesis
    using a b c by blast
qed



section \<open>Properties of the decoder\<close>






section \<open>Properties of the command runner\<close>

lemma run_try_frame:
  "run_try h self w = (w', out, raised) \<Longrightarrow>
     commands_working w' = commands_working w \<and> timeouts w' = timeouts w
     \<and> (\<exists>mid. trace w' = trace w @ mid \<and> (\<forall>e\<in>set mid. \<exists>l. e = Spawn l) \<and> length mid \<le> 1)"
  by (auto simp: run_try_def Let_def split: option.splits sum.splits if_splits)

lemma run_not_isdir:
  "\<not> os_path_isdir (disk w) (ct_working_dir self) \<Longrightarrow> run h self w = (w, None)"
  by (simp add: run_def)

text \<open>
  C5: when the working directory of a command thread does not exist at the
  moment its body runs, \<^verbatim>\<open>run\<close> returns normally and leaves the whole state as it
  was: no \<^verbatim>\<open>Popen\<close> call, nothing handed to the main thread, the counter untouched.
\<close>

theorem run_missing_working_dir:
  "\<not> os_path_exists (disk w) (ct_working_dir self) \<Longrightarrow> run h self w = (w, None)"
  by (rule run_not_isdir) (auto simp: os_path_exists_def os_path_isdir_def)

theorem run_missing_working_dir_witness:
  "\<not> os_path_exists (disk demo_world) ''/gone''
   \<and> run demo_host (demo_thread [''/usr/local/bin/repo'', ''sync''] ''/gone'') demo_world
       = (demo_world, None)"
proof -
  have h: "\<not> os_path_exists (disk demo_world) (ct_working_dir (demo_thread [''/usr/local/bin/repo'', ''sync''] ''/gone''))"
    by (simp add: os_path_exists_def demo_world_def demo_fs_def demo_thread_def)
  from run_missing_working_dir [OF h, of demo_host] h show ?thesis
    by (simp add: demo_thread_def)
qed

lemma run_isdir:
  assumes "os_path_isdir (disk w) (ct_working_dir self)"
  shows "\<exists>w1 out raised cb out' pending.
     run_try h self (run_enter w) = (w1, out, raised)
     \<and> run_except h self out raised = (cb, out', pending)
     \<and> run h self w = (run_finally self cb out' w1, pending)"
proof -
  obtain w1 out raised where t: "run_try h self (run_enter w) = (w1, out, raised)"
    by (metis prod_cases3)
  obtain cb out' pending where e: "run_except h self out raised = (cb, out', pending)"
    by (metis prod_cases3)
  show ?thesis using assms t e by (simp add: run_def Let_def)
qed

lemma run_enter_counter: "commands_working (run_enter w) = commands_working w + 1"
  by (simp add: run_enter_def)

lemma run_enter_frame:
  "shown_panel (run_enter w) = shown_panel w" "error_dialogs (run_enter w) = error_dialogs w"
  "timeouts (run_enter w) = timeouts w" "disk (run_enter w) = disk w"
  "views (run_enter w) = views w" "threads (run_enter w) = threads w"
  by (simp_all add: run_enter_def)

lemma run_finally_counter:
  "commands_working (run_finally self cb out w1) = commands_working w1 - 1"
  by (simp add: run_finally_def main_thread_def set_timeout_def)

lemma run_finally_timeouts:
  "timeouts (run_finally self cb out w1) = timeouts w1 @ [(0, Deliver cb out (ct_kwargs self))]"
  by (simp add: run_finally_def main_thread_def set_timeout_def)

lemma demo_isdir_work: "os_path_isdir (disk demo_world) ''/work''"
  by (simp add: os_path_isdir_def demo_world_def demo_fs_def)

lemma demo_not_isdir_gone: "\<not> os_path_isdir (disk demo_world) ''/gone''"
  by (simp add: os_path_isdir_def demo_world_def demo_fs_def)

lemma demo_run_sync:
  "run demo_host (demo_thread [''/usr/local/bin/repo'', ''sync''] ''/work'') demo_world =
     (demo_world\<lparr>trace := [Counter 1,
                            Spawn \<lparr>l_argv = [''/usr/local/bin/repo'', ''sync''], l_cwd = ''/work'',
                                   l_stdin = None, l_stdout = None, l_shell = False,
                                   l_env = environ demo_host\<rparr>,
                            Counter 0],
                  timeouts := [(0, Deliver (Other ''on_done'') (PStr (str ''done\<newline>'')) no_kwargs)]\<rparr>,
      None)"
  by (simp add: run_def run_enter_def run_finally_def run_try_def run_except_def popen_env_def
        popen_args_def Let_def
        os_path_isdir_def demo_fs_def demo_thread_def demo_host_def demo_popen_def ok_output_def
        make_text_safeish_def getattr_decode_def demo_codecs_def main_thread_def set_timeout_def
        demo_world_def str_def)

lemma demo_run_eacces:
  "run demo_host (demo_thread [''/etc/passwd''] ''/work'') demo_world =
     (demo_world\<lparr>trace := [Counter 1,
                            Spawn \<lparr>l_argv = [''/etc/passwd''], l_cwd = ''/work'',
                                   l_stdin = None, l_stdout = None, l_shell = False,
                                   l_env = environ demo_host\<rparr>,
                            Counter 0],
                  timeouts := [(0, Deliver ErrorMessage (PStr (str ''Permission denied'')) no_kwargs)]\<rparr>,
      None)"
  by (simp add: run_def run_enter_def run_finally_def run_try_def run_except_def popen_env_def
        popen_args_def Let_def
        os_path_isdir_def demo_fs_def demo_thread_def demo_host_def demo_popen_def
        main_thread_def set_timeout_def demo_world_def)

text \<open>
  C7, for the runs that pass the directory test: the first thing such a run does
  is \<^verbatim>\<open>run_enter\<close>, which leaves the counter one higher than it found it; the \<^verbatim>\<open>try\<close>
  block, whatever happens in it (a \<^verbatim>\<open>chdir\<close> error, a launch error, a decoding
  error, or none), leaves the counter as it is, so that the process is launched
  and awaited with the counter one above its old value; and the run ends with
  \<^verbatim>\<open>run_finally\<close>, which leaves the counter one lower than it found it, for every
  callback and output the \<^verbatim>\<open>except\<close> clauses chose and also when an exception is
  still pending. The counter after the run is therefore the counter before it.
  Nothing is assumed of \<^verbatim>\<open>chdir\<close>, \<^verbatim>\<open>Popen\<close> or the codecs. A run whose working
  directory is not a directory returns before the increment: its result is the
  state it started in.
\<close>

theorem run_counter_balanced:
  "commands_working (run_enter w) = commands_working w + 1
   \<and> (\<forall>w0 w1 out raised. run_try h self w0 = (w1, out, raised)
         \<longrightarrow> commands_working w1 = commands_working w0)
   \<and> (\<forall>cb out w1. commands_working (run_finally self cb out w1) = commands_working w1 - 1)
   \<and> (os_path_isdir (disk w) (ct_working_dir self) \<longrightarrow>
        (\<exists>w1 out raised cb out' pending.
            run_try h self (run_enter w) = (w1, out, raised)
          \<and> run_except h self out raised = (cb, out', pending)
          \<and> run h self w = (run_finally self cb out' w1, pending)
          \<and> commands_working w1 = commands_working w + 1
          \<and> commands_working (fst (run h self w)) = commands_working w))
   \<and> (\<not> os_path_isdir (disk w) (ct_working_dir self) \<longrightarrow> run h self w = (w, None))"
proof (intro conjI allI impI)
  show "commands_working (run_enter w) = commands_working w + 1"
    by (rule run_enter_counter)
next
  fix w0 w1 out raised
  assume "run_try h self w0 = (w1, out, raised)"
  from run_try_frame [OF this] show "commands_working w1 = commands_working w0"
    by blast
next
  fix cb out w1
  show "commands_working (run_finally self cb out w1) = commands_working w1 - 1"
    by (rule run_finally_counter)
next
  assume d: "os_path_isdir (disk w) (ct_working_dir self)"
  obtain w1 out raised cb out' pending where
    t: "run_try h self (run_enter w) = (w1, out, raised)" and
    x: "run_except h self out raised = (cb, out', pending)" and
    r: "run h self w = (run_finally self cb out' w1, pending)"
    using run_isdir [OF d, of h] by blast
  have c: "commands_working w1 = commands_working w + 1"
    using run_try_frame [OF t] by (simp add: run_enter_counter)
  have f: "commands_working (fst (run h self w)) = commands_working w"
    using c by (simp add: r run_finally_counter)
  show "\<exists>w1 out raised cb out' pending.
            run_try h self (run_enter w) = (w1, out, raised)
          \<and> run_except h self out raised = (cb, out', pending)
          \<and> run h self w = (run_finally self cb out' w1, pending)
          \<and> commands_working w1 = commands_working w + 1
          \<and> commands_working (fst (run h self w)) = commands_working w"
    using t x r c f by blast
next
  assume "\<not> os_path_isdir (disk w) (ct_working_dir self)"
  then show "run h self w = (w, None)"
    by (rule run_not_isdir)
qed

theorem run_counter_balanced_witness:
  "os_path_isdir (disk demo_world) ''/work''
   \<and> commands_working demo_world = 0
   \<and> commands_working (run_enter demo_world) = 1
   \<and> are_commands_working (run_enter demo_world)
   \<and> commands_working
        (fst (run_try demo_host (demo_thread [''/etc/passwd''] ''/work'') (run_enter demo_world))) = 1
   \<and> commands_working (fst (run demo_host (demo_thread [''/etc/passwd''] ''/work'') demo_world)) = 0
   \<and> \<not> os_path_isdir (disk demo_world) ''/gone''
   \<and> run demo_host (demo_thread [''/etc/passwd''] ''/gone'') demo_world = (demo_world, None)"
proof -
  let ?T = "demo_thread [''/etc/passwd''] ''/work''"
  let ?G = "demo_thread [''/etc/passwd''] ''/gone''"
  have z: "commands_working demo_world = 0"
    by (simp add: demo_world_def)
  have wd: "ct_working_dir ?T = ''/work''" "ct_working_dir ?G = ''/gone''"
    by (simp_all add: demo_thread_def)
  obtain w1 out raised where
    t: "run_try demo_host ?T (run_enter demo_world) = (w1, out, raised)"
    by (metis prod_cases3)
  have "commands_working (run_enter demo_world) = commands_working demo_world + 1
      \<and> commands_working w1 = commands_working (run_enter demo_world)
      \<and> commands_working (fst (run demo_host ?T demo_world)) = commands_working demo_world"
    using run_counter_balanced [of demo_world demo_host ?T] t demo_isdir_work
    by (auto simp: wd)
  moreover have "run demo_host ?G demo_world = (demo_world, None)"
    using run_counter_balanced [of demo_world demo_host ?G] demo_not_isdir_gone
    by (simp add: wd)
  ultimately show ?thesis
    using demo_isdir_work demo_not_isdir_gone t
    by (simp add: z are_commands_working_def)
qed

text \<open>
  Against C7 as stated for every execution: the run of a thread whose working
  directory is gone returns at the directory test. Its result is the state it
  started in, in which the counter is not the incremented one and no write of
  the counter is recorded; and no state that \<^verbatim>\<open>run_finally\<close> returns is that result,
  since the cleanup step always hands a callback to the main thread: neither the
  increment nor the cleanup step was executed.
\<close>

theorem run_missing_dir_counterexample:
  "\<not> os_path_isdir (disk demo_world) ''/gone''
   \<and> fst (run demo_host (demo_thread [''/usr/local/bin/repo'', ''sync''] ''/gone'') demo_world)
       = demo_world
   \<and> commands_working (run_enter demo_world) \<noteq> commands_working demo_world
   \<and> trace (fst (run demo_host (demo_thread [''/usr/local/bin/repo'', ''sync''] ''/gone'') demo_world))
       = []
   \<and> (\<forall>cb out w1.
        run_finally (demo_thread [''/usr/local/bin/repo'', ''sync''] ''/gone'') cb out w1
          \<noteq> fst (run demo_host (demo_thread [''/usr/local/bin/repo'', ''sync''] ''/gone'') demo_world))"
proof -
  let ?G = "demo_thread [''/usr/local/bin/repo'', ''sync''] ''/gone''"
  have r: "run demo_host ?G demo_world = (demo_world, None)"
    by (rule run_not_isdir) (simp add: demo_thread_def demo_not_isdir_gone)
  have e: "timeouts demo_world = []" "trace demo_world = []"
    by (simp_all add: demo_world_def)
  have "run_finally ?G cb out w1 \<noteq> demo_world" for cb out w1
  proof
    assume "run_finally ?G cb out w1 = demo_world"
    then have "timeouts (run_finally ?G cb out w1) = timeouts demo_world"
      by simp
    then show False
      by (simp add: run_finally_timeouts e)
  qed
  then show ?thesis
    using demo_not_isdir_gone by (simp add: r e run_enter_counter)
qed

lemma binary_not_found_mentions:
  "\<exists>pre post. binary_not_found path = pre @ str ''repo_command setting'' @ post"
  by (intro exI [of _ "str (''Repo binary could not be found in PATH\<newline>\<newline>'' @ ''Consider using the '')"]
            exI [of _ "str ('' for the Repo plugin\<newline>\<newline>'' @ ''PATH is: '' @ path)"])
     (simp add: binary_not_found_def str_def)

text \<open>
  C2, as the code has it: when the launch raises an \<^verbatim>\<open>OSError\<close> and \<^verbatim>\<open>PATH\<close> is set in
  the environment, the run ends normally and hands the main thread the
  error-dialog callback, for every errno. With errno 2 the message is the
  "binary could not be found" text, which names the \<^verbatim>\<open>repo_command\<close> setting and ends
  with the value of \<^verbatim>\<open>PATH\<close>; with any other errno the message is the error's
  \<^verbatim>\<open>strerror\<close>. The callback the thread was created with is not used.
\<close>

theorem run_launch_oserror:
  assumes d: "os_path_isdir (disk w) (ct_working_dir self)"
    and c: "chdir h (ct_working_dir self) = None"
    and e: "popen_env h = Inr env"
    and p: "popen h (popen_args h self env) = Inl (OSError errno strerror)"
    and path: "environ h ''PATH'' = Some path"
  shows "\<exists>w'. run h self w = (w', None)
     \<and> shown_panel w' = shown_panel w \<and> error_dialogs w' = error_dialogs w
     \<and> timeouts w' = timeouts w @
          [(0, Deliver ErrorMessage
                 (PStr (if errno = 2 then binary_not_found path else strerror)) (ct_kwargs self))]
     \<and> (\<exists>pre post. binary_not_found path = pre @ str ''repo_command setting'' @ post)"
proof -
  let ?w0 = "run_enter w"
  have t: "run_try h self ?w0 =
      (?w0\<lparr>trace := trace ?w0 @ [Spawn (popen_args h self env)]\<rparr>, PStr [], Some (OSError errno strerror))"
    using c e p by (simp add: run_try_def Let_def)
  have x: "run_except h self (PStr []) (Some (OSError errno strerror)) =
      (ErrorMessage, PStr (if errno = 2 then binary_not_found path else strerror), None)"
    using path by (simp add: run_except_def)
  show ?thesis
    using d binary_not_found_mentions [of path]
    by (simp add: run_def t x Let_def run_enter_frame run_finally_def main_thread_def
          set_timeout_def del: if_split)
qed

theorem run_launch_oserror_witness:
  "\<exists>w'. run demo_host (demo_thread [''repo'', ''sync''] ''/work'') demo_world = (w', None)
     \<and> timeouts w' = [(0, Deliver ErrorMessage (PStr (binary_not_found ''/usr/bin:/bin'')) no_kwargs)]"
proof -
  let ?T = "demo_thread [''repo'', ''sync''] ''/work''"
  have d: "os_path_isdir (disk demo_world) (ct_working_dir ?T)"
    by (simp add: demo_thread_def demo_isdir_work)
  have c: "chdir demo_host (ct_working_dir ?T) = None"
    by (simp add: demo_host_def)
  have e: "popen_env demo_host = Inr (environ demo_host)"
    by (simp add: popen_env_def demo_host_def)
  have p: "popen demo_host (popen_args demo_host ?T (environ demo_host)) =
      Inl (OSError 2 (str ''No such file or directory''))"
    by (simp add: popen_args_def demo_host_def demo_popen_def demo_thread_def)
  have path: "environ demo_host ''PATH'' = Some ''/usr/bin:/bin''"
    by (simp add: demo_host_def)
  have k: "ct_kwargs ?T = no_kwargs" "timeouts demo_world = []"
    by (simp_all add: demo_thread_def demo_world_def)
  from run_launch_oserror [OF d c e p path] obtain w' where
    "run demo_host ?T demo_world = (w', None)"
    "timeouts w' = timeouts demo_world @
       [(0, Deliver ErrorMessage
              (PStr (if (2::int) = 2 then binary_not_found ''/usr/bin:/bin''
                     else str ''No such file or directory'')) (ct_kwargs ?T))]"
    by blast
  then show ?thesis
    by (simp add: k)
qed

text \<open>
  Against C2 as stated: a launch that fails with errno 13 is delivered through the
  error dialog, not through the callback of the thread; and with \<^verbatim>\<open>PATH\<close> unset, a
  launch that fails with errno 2 delivers an empty message, because building the
  message raises \<^verbatim>\<open>KeyError\<close>.
\<close>

theorem run_other_oserror_counterexample:
  "popen demo_host (popen_args demo_host (demo_thread [''/etc/passwd''] ''/work'') (environ demo_host))
     = Inl (OSError 13 (str ''Permission denied''))
   \<and> ct_on_done (demo_thread [''/etc/passwd''] ''/work'') = Other ''on_done''
   \<and> timeouts (fst (run demo_host (demo_thread [''/etc/passwd''] ''/work'') demo_world))
     = [(0, Deliver ErrorMessage (PStr (str ''Permission denied'')) no_kwargs)]
   \<and> timeouts (fst (run demo_host (demo_thread [''/etc/passwd''] ''/work'') demo_world))
     \<noteq> [(0, Deliver (Other ''on_done'') (PStr (str ''Permission denied'')) no_kwargs)]
   \<and> popen (demo_host\<lparr>environ := \<lambda>k. None\<rparr>)
       (popen_args (demo_host\<lparr>environ := \<lambda>k. None\<rparr>) (demo_thread [''repo'', ''sync''] ''/work'') (\<lambda>k. None))
     = Inl (OSError 2 (str ''No such file or directory''))
   \<and> timeouts (fst (run (demo_host\<lparr>environ := \<lambda>k. None\<rparr>) (demo_thread [''repo'', ''sync''] ''/work'') demo_world))
     = [(0, Deliver ErrorMessage (PStr []) no_kwargs)]"
proof (intro conjI)
  show "popen demo_host (popen_args demo_host (demo_thread [''/etc/passwd''] ''/work'') (environ demo_host))
     = Inl (OSError 13 (str ''Permission denied''))"
    by (simp add: popen_args_def demo_host_def demo_popen_def demo_thread_def)
  show "ct_on_done (demo_thread [''/etc/passwd''] ''/work'') = Other ''on_done''"
    by (simp add: demo_thread_def)
  show "timeouts (fst (run demo_host (demo_thread [''/etc/passwd''] ''/work'') demo_world))
     = [(0, Deliver ErrorMessage (PStr (str ''Permission denied'')) no_kwargs)]"
    by (simp add: demo_run_eacces)
  show "timeouts (fst (run demo_host (demo_thread [''/etc/passwd''] ''/work'') demo_world))
     \<noteq> [(0, Deliver (Other ''on_done'') (PStr (str ''Permission denied'')) no_kwargs)]"
    by (simp add: demo_run_eacces)
  show "popen (demo_host\<lparr>environ := \<lambda>k. None\<rparr>)
       (popen_args (demo_host\<lparr>environ := \<lambda>k. None\<rparr>) (demo_thread [''repo'', ''sync''] ''/work'') (\<lambda>k. None))
     = Inl (OSError 2 (str ''No such file or directory''))"
    by (simp add: popen_args_def demo_host_def demo_popen_def demo_thread_def)
  show "timeouts (fst (run (demo_host\<lparr>environ := \<lambda>k. None\<rparr>) (demo_thread [''repo'', ''sync''] ''/work'') demo_world))
     = [(0, Deliver ErrorMessage (PStr []) no_kwargs)]"
    by (simp add: run_def run_enter_def run_finally_def run_try_def run_except_def popen_env_def
        popen_args_def Let_def
        os_path_isdir_def demo_fs_def demo_thread_def demo_host_def demo_popen_def
        main_thread_def set_timeout_def demo_world_def)
qed





section \<open>Properties of the output panel\<close>






section \<open>Properties of the commands\<close>

lemma repo_root_empty:
  assumes "\<forall>e. cache [] = Some e \<longrightarrow> retval e = RFalse"
  shows "\<exists>c. repo_root fs t1 t2 cache [] = Some (RFalse, c, [])"
  using assms
  by (simp add: repo_root_def Let_def repo_root_walk.simps split: option.splits)

text \<open>
  The only writer of the cache is \<^verbatim>\<open>repo_root\<close>, and what it stores under the empty
  string is \<^verbatim>\<open>False\<close>: the loop does not run for the empty string.
\<close>

lemma repo_root_keeps_empty_entry:
  assumes "\<forall>e. cache [] = Some e \<longrightarrow> retval e = RFalse"
    and "repo_root fs t1 t2 cache d = Some (rv, cache', vis)"
  shows "\<forall>e. cache' [] = Some e \<longrightarrow> retval e = RFalse"
proof (cases "d = []")
  case True
  then show ?thesis
    using assms
    by (auto simp: repo_root_def Let_def repo_root_walk.simps split: option.splits if_splits)
next
  case False
  then show ?thesis
    using assms
    by (auto simp: repo_root_def Let_def split: option.splits if_splits)
qed

lemma substitute_command_Cons:
  "\<exists>c'. substitute_command h (c # cs) = Inr (c' # cs)"
  by (simp add: substitute_command_def Let_def)


lemma run_command_launch_thread:
  "substitute_command h command = Inr command' \<Longrightarrow>
   \<exists>w'. run_command_launch h self command cb show_status no_save kw w = (w', None)
        \<and> threads w' = threads w
             @ [CommandThread command' (case cb of None \<Rightarrow> GenericDone self | Some c \<Rightarrow> c) kw]
        \<and> timeouts w' = timeouts w \<and> trace w' = trace w \<and> disk w' = disk w
        \<and> views w' = views w \<and> output_panel_repo w' = output_panel_repo w
        \<and> commands_working w' = commands_working w \<and> shown_panel w' = shown_panel w"
  by (simp add: run_command_launch_def Let_def thread_start_def view_run_command_def
        split: option.splits)

lemma window_get_working_dir_empty:
  "kind self = WindowCommand \<Longrightarrow> active_file_name w = None \<Longrightarrow> folders w = []
   \<Longrightarrow> get_working_dir self w = Inr []"
  by (simp add: get_working_dir_def)

lemma run_command_kwargs_working_dir:
  "get_working_dir self w = Inr d \<Longrightarrow> kw_working_dir kw = None
   \<Longrightarrow> \<exists>kw'. run_command_kwargs self kw w = Inr kw' \<and> kw_working_dir kw' = Some d
          \<and> kw_stdin kw' = kw_stdin kw \<and> kw_stdout kw' = kw_stdout kw
          \<and> kw_status_message kw' = kw_status_message kw"
  by (simp add: run_command_kwargs_def split: option.splits)

lemma run_command_kwargs_Inr:
  "get_working_dir self w = Inr d \<Longrightarrow> \<exists>kw'. run_command_kwargs self kw w = Inr kw'"
  by (simp add: run_command_kwargs_def split: option.splits)

lemma CommandThread_working_dir:
  "kw_working_dir kw = Some d \<Longrightarrow> ct_working_dir (CommandThread c cb kw) = d"
  by (simp add: CommandThread_def)

lemma run_command_unlocked:
  assumes "run_command_kwargs self (ra_kwargs args) w = Inr kw"
    and "get_working_dir self w = Inr wd"
    and "repo_root (disk w) (now w) (now w) (repo_root_cache w) wd = Some (rv, c, vis)"
    and "\<not> (ra_wait_for_lock args \<and> (case rv of RFalse \<Rightarrow> [] | RDir d \<Rightarrow> d) \<noteq> []
            \<and> os_path_exists (disk w) (index_lock (case rv of RFalse \<Rightarrow> [] | RDir d \<Rightarrow> d)))"
  shows "run_command h self args w =
     Some (run_command_launch h self
             (if ra_filter_empty_args args
              then filter (\<lambda>arg. arg \<noteq> []) (ra_command args) else ra_command args)
             (ra_callback args) (ra_show_status args) (ra_no_save args) kw
             (w\<lparr>repo_root_cache := c\<rparr>))"
  using assms by (auto simp: run_command_def Let_def)

lemma run_command_locked:
  assumes "run_command_kwargs self (ra_kwargs args) w = Inr kw"
    and "get_working_dir self w = Inr wd"
    and "repo_root (disk w) (now w) (now w) (repo_root_cache w) wd = Some (RDir rd, c, vis)"
    and "ra_wait_for_lock args" and "rd \<noteq> []"
    and "os_path_exists (disk w) (index_lock rd)"
  shows "run_command h self args w = Some (w\<lparr>repo_root_cache := c\<rparr>, Some TypeError)"
  using assms by (simp add: run_command_def Let_def)

text \<open>
  C10: for a window command in a window whose active view has no file and which
  has no folder, \<^verbatim>\<open>get_working_dir\<close> returns the empty string. A \<^verbatim>\<open>run_command\<close> that
  is not given a working directory then returns normally, having started one
  thread whose working directory is the empty string and having launched
  nothing; and whenever the body of that thread runs, it returns at the
  directory test with the state as it was: no \<^verbatim>\<open>Popen\<close>, no callback, no exception.
  The cache is taken to hold under the empty string, if anything, what \<^verbatim>\<open>repo_root\<close>
  stores there, which is \<^verbatim>\<open>False\<close>.
\<close>

theorem empty_working_dir_dropped:
  assumes "kind self = WindowCommand" and "active_file_name w = None" and "folders w = []"
    and "kw_working_dir (ra_kwargs args) = None"
    and "ra_command args = c # cs" and "c \<noteq> []"
    and "\<forall>e. repo_root_cache w [] = Some e \<longrightarrow> retval e = RFalse"
  shows "get_working_dir self w = Inr []
     \<and> (\<exists>w' t. run_command h self args w = Some (w', None)
            \<and> threads w' = threads w @ [t] \<and> ct_working_dir t = []
            \<and> trace w' = trace w
            \<and> (\<forall>u. run h t u = (u, None)))"
proof -
  have wd: "get_working_dir self w = Inr []"
    using assms(1-3) by (rule window_get_working_dir_empty)
  obtain kw where kw: "run_command_kwargs self (ra_kwargs args) w = Inr kw"
    and kwd: "kw_working_dir kw = Some []"
    using run_command_kwargs_working_dir [OF wd assms(4)] by blast
  obtain ca where rr: "repo_root (disk w) (now w) (now w) (repo_root_cache w) [] = Some (RFalse, ca, [])"
    using repo_root_empty [of "repo_root_cache w" "disk w" "now w" "now w"] assms(7) by blast
  define command where "command = (if ra_filter_empty_args args
                    then filter (\<lambda>arg. arg \<noteq> []) (ra_command args) else ra_command args)"
  define w0 where "w0 = w\<lparr>repo_root_cache := ca\<rparr>"
  have rc: "run_command h self args w =
     Some (run_command_launch h self command (ra_callback args) (ra_show_status args)
             (ra_no_save args) kw w0)"
    unfolding w0_def command_def
    by (rule run_command_unlocked [OF kw wd rr]) simp
  have hd: "command = c # tl command"
    using assms(5,6) by (simp add: command_def)
  obtain c' where "substitute_command h (c # tl command) = Inr (c' # tl command)"
    using substitute_command_Cons [of h c "tl command"] by blast
  then have sub: "substitute_command h command = Inr (c' # tl command)"
    using hd by simp
  obtain w' where l: "run_command_launch h self command (ra_callback args) (ra_show_status args)
             (ra_no_save args) kw w0 = (w', None)"
    and th: "threads w' = threads w0
             @ [CommandThread (c' # tl command)
                  (case ra_callback args of None \<Rightarrow> GenericDone self | Some c \<Rightarrow> c) kw]"
    and tr: "trace w' = trace w0"
    using run_command_launch_thread [OF sub, of self "ra_callback args" "ra_show_status args"
        "ra_no_save args" kw w0] by blast
  have w0: "threads w0 = threads w \<and> trace w0 = trace w"
    by (simp add: w0_def)
  define t where "t = CommandThread (c' # tl command)
                  (case ra_callback args of None \<Rightarrow> GenericDone self | Some c \<Rightarrow> c) kw"
  have ct: "ct_working_dir t = []"
    unfolding t_def using kwd by (rule CommandThread_working_dir)
  have drop: "run h t u = (u, None)" for u
    by (rule run_not_isdir) (simp add: ct os_path_isdir_def)
  have "run_command h self args w = Some (w', None) \<and> threads w' = threads w @ [t]
        \<and> ct_working_dir t = [] \<and> trace w' = trace w \<and> (\<forall>u. run h t u = (u, None))"
    using rc l th tr w0 ct drop by (simp add: t_def)
  then show ?thesis
    using wd by blast
qed

theorem empty_working_dir_dropped_witness:
  "active_file_name empty_window = None \<and> folders empty_window = []
   \<and> get_working_dir \<lparr>kind = WindowCommand, may_change_files = True\<rparr> empty_window = Inr []
   \<and> (\<exists>w' t. run_command demo_host \<lparr>kind = WindowCommand, may_change_files = True\<rparr>
                  (default_args [''repo'', ''sync'']) empty_window = Some (w', None)
            \<and> threads w' = [t] \<and> ct_working_dir t = [] \<and> trace w' = []
            \<and> run demo_host t w' = (w', None))"
proof -
  have a: "active_file_name empty_window = None" and f: "folders empty_window = []"
    and th: "threads empty_window = []" and tr: "trace empty_window = []"
    and ca: "\<forall>e. repo_root_cache empty_window [] = Some e \<longrightarrow> retval e = RFalse"
    by (simp_all add: empty_window_def demo_world_def active_file_name_def)
  have k: "kw_working_dir (ra_kwargs (default_args [''repo'', ''sync''])) = None"
    and c: "ra_command (default_args [''repo'', ''sync'']) = ''repo'' # [''sync'']"
    by (simp_all add: default_args_def no_kwargs_def)
  have "get_working_dir \<lparr>kind = WindowCommand, may_change_files = True\<rparr> empty_window = Inr []
     \<and> (\<exists>w' t. run_command demo_host \<lparr>kind = WindowCommand, may_change_files = True\<rparr>
              (default_args [''repo'', ''sync'']) empty_window = Some (w', None)
            \<and> threads w' = threads empty_window @ [t] \<and> ct_working_dir t = []
            \<and> trace w' = trace empty_window
            \<and> (\<forall>u. run demo_host t u = (u, None)))"
    using empty_working_dir_dropped [of "\<lparr>kind = WindowCommand, may_change_files = True\<rparr>"
        empty_window "default_args [''repo'', ''sync'']" "''repo''" "[''sync'']" demo_host,
        OF _ a f k c _ ca]
    by simp
  then show ?thesis
    using a f th tr by auto
qed



lemma popen_calls_append:
  "trace w' = trace w @ [Counter a, Spawn l, Counter b] \<Longrightarrow> popen_calls w' = popen_calls w @ [l]"
  by (simp add: popen_calls_def)











lemma idle_steps:
  assumes "threads w = []" and "timeouts w = []"
  shows "run_thread h i w = (w, None)" and "fire h i w = (w, None)"
  using assms by (simp_all add: run_thread_def fire_def)

text \<open>
  C1 does not hold of the code: a command issued while the lock marker exists
  under the detected root, with \<^verbatim>\<open>wait_for_lock\<close> enabled, is not deferred. The call of
  \<^verbatim>\<open>do_when\<close> passes \<^verbatim>\<open>callback\<close> twice and raises \<^verbatim>\<open>TypeError\<close>, which leaves
  \<^verbatim>\<open>run_command\<close>: the state is the one before the call but for the cache entry of
  the root lookup, so no thread was started and no timer set. If no other thread
  or timer was pending, there is nothing left that could launch the process:
  whatever the filesystem becomes, in particular once the marker is removed,
  every step of a thread or of a timer leaves the state as it is. No process is
  spawned while the marker exists, as C1 says, but the command does not run once
  after the marker is removed: it never runs.
\<close>

theorem run_command_locked_raises:
  assumes wd: "get_working_dir self w = Inr wd"
    and found: "repo_root (disk w) (now w) (now w) (repo_root_cache w) wd = Some (RDir rd, c, vis)"
    and nonempty: "rd \<noteq> []"
    and wait: "ra_wait_for_lock args"
    and locked: "os_path_exists (disk w) (index_lock rd)"
  shows "run_command h self args w = Some (w\<lparr>repo_root_cache := c\<rparr>, Some TypeError)
     \<and> popen_calls (w\<lparr>repo_root_cache := c\<rparr>) = popen_calls w
     \<and> (threads w = [] \<and> timeouts w = [] \<longrightarrow>
          (\<forall>fs' i. run_thread h i (w\<lparr>repo_root_cache := c, disk := fs'\<rparr>)
                      = (w\<lparr>repo_root_cache := c, disk := fs'\<rparr>, None)
                  \<and> fire h i (w\<lparr>repo_root_cache := c, disk := fs'\<rparr>)
                      = (w\<lparr>repo_root_cache := c, disk := fs'\<rparr>, None)))"
proof (intro conjI impI allI)
  obtain kw where kw: "run_command_kwargs self (ra_kwargs args) w = Inr kw"
    using run_command_kwargs_Inr [OF wd] by blast
  show "run_command h self args w = Some (w\<lparr>repo_root_cache := c\<rparr>, Some TypeError)"
    by (rule run_command_locked [OF kw wd found wait nonempty locked])
next
  show "popen_calls (w\<lparr>repo_root_cache := c\<rparr>) = popen_calls w"
    by (simp add: popen_calls_def)
next
  fix fs' i
  assume e: "threads w = [] \<and> timeouts w = []"
  then have t: "threads (w\<lparr>repo_root_cache := c, disk := fs'\<rparr>) = []"
    "timeouts (w\<lparr>repo_root_cache := c, disk := fs'\<rparr>) = []"
    by simp_all
  show "run_thread h i (w\<lparr>repo_root_cache := c, disk := fs'\<rparr>)
          = (w\<lparr>repo_root_cache := c, disk := fs'\<rparr>, None)"
    using t by (rule idle_steps(1))
  show "fire h i (w\<lparr>repo_root_cache := c, disk := fs'\<rparr>)
          = (w\<lparr>repo_root_cache := c, disk := fs'\<rparr>, None)"
    using t by (rule idle_steps(2))
qed

theorem run_command_locked_raises_witness:
  "os_path_exists (disk locked_world) (index_lock ''/work'')
   \<and> ra_wait_for_lock (default_args [''repo'', ''sync''])
   \<and> (\<exists>w1. RepoSyncCommand_run demo_host 1 locked_world = Some (w1, Some TypeError)
          \<and> threads w1 = [] \<and> timeouts w1 = [] \<and> popen_calls w1 = []
          \<and> \<not> os_path_exists (disk (w1\<lparr>disk := demo_fs\<rparr>)) (index_lock ''/work'')
          \<and> run_thread demo_host 0 (w1\<lparr>disk := demo_fs\<rparr>) = (w1\<lparr>disk := demo_fs\<rparr>, None)
          \<and> fire demo_host 0 (w1\<lparr>disk := demo_fs\<rparr>) = (w1\<lparr>disk := demo_fs\<rparr>, None)
          \<and> popen_calls (w1\<lparr>disk := demo_fs\<rparr>) = [])"
proof -
  let ?c = "[''/work/src'' \<mapsto> \<lparr>retval = RDir ''/work'', expires = 5\<rparr>]"
  let ?self = "RepoSyncCommand 1"
  have p: "parent_of locked_fs ''/work/src'' = ''/work''"
    by (simp add: parent_of_def locked_fs_def demo_fs_def os_path_join_def os_path_pardir_def)
  have mk: "has_marker locked_fs ''/work''" "\<not> has_marker locked_fs ''/work/src''"
    by (simp_all add: has_marker_def os_path_exists_def os_path_join_def locked_fs_def demo_fs_def)
  have w: "repo_root_walk locked_fs ''/work/src'' [] = Some (RDir ''/work'', [''/work/src'', ''/work''])"
    using walk_found [of locked_fs "''/work/src''" "Suc 0" "[]"]
    by (simp add: ancestor_Suc ancestor_0 p mk le_Suc_eq upt_rec [of 0] upt_rec [of "Suc 0"])
  have miss: "\<not> cache_fresh Map.empty ''/work/src'' 0"
    by (simp add: cache_fresh_def)
  have f: "disk locked_world = locked_fs" "now locked_world = 0"
    "repo_root_cache locked_world = Map.empty" "threads locked_world = []"
    "timeouts locked_world = []" "popen_calls locked_world = []" "trace locked_world = []"
    by (simp_all add: locked_world_def demo_world_def popen_calls_def)
  have wd: "get_working_dir ?self locked_world = Inr ''/work/src''"
    by (simp add: get_working_dir_def RepoSyncCommand_def locked_world_def demo_world_def
          locked_fs_def demo_fs_def os_path_dirname_def)
  have rr: "repo_root (disk locked_world) (now locked_world) (now locked_world)
              (repo_root_cache locked_world) ''/work/src'' = Some (RDir ''/work'', ?c, [''/work/src'', ''/work''])"
    unfolding f using repo_root_miss [OF miss w, of 0] by simp
  have ne: "''/work'' \<noteq> []"
    by simp
  have wt: "ra_wait_for_lock (default_args [''repo'', ''sync''])"
    by (simp add: default_args_def)
  have lk: "os_path_exists (disk locked_world) (index_lock ''/work'')"
    by (simp add: f os_path_exists_def index_lock_def os_path_join_def locked_fs_def)
  have ul: "\<not> os_path_exists demo_fs (index_lock ''/work'')"
    by (simp add: os_path_exists_def index_lock_def os_path_join_def demo_fs_def)
  let ?w1 = "locked_world\<lparr>repo_root_cache := ?c\<rparr>"
  have a: "run_command demo_host ?self (default_args [''repo'', ''sync'']) locked_world
             = Some (?w1, Some TypeError)"
    and b: "popen_calls ?w1 = popen_calls locked_world"
    and s: "run_thread demo_host 0 (locked_world\<lparr>repo_root_cache := ?c, disk := demo_fs\<rparr>)
              = (locked_world\<lparr>repo_root_cache := ?c, disk := demo_fs\<rparr>, None)"
       "fire demo_host 0 (locked_world\<lparr>repo_root_cache := ?c, disk := demo_fs\<rparr>)
              = (locked_world\<lparr>repo_root_cache := ?c, disk := demo_fs\<rparr>, None)"
    using run_command_locked_raises [OF wd rr ne wt lk, of demo_host] f(4) f(5)
    by blast+
  have r: "RepoSyncCommand_run demo_host 1 locked_world = Some (?w1, Some TypeError)"
    using a by (simp add: RepoSyncCommand_run_def Let_def)
  have "RepoSyncCommand_run demo_host 1 locked_world = Some (?w1, Some TypeError)
          \<and> threads ?w1 = [] \<and> timeouts ?w1 = [] \<and> popen_calls ?w1 = []
          \<and> \<not> os_path_exists (disk (?w1\<lparr>disk := demo_fs\<rparr>)) (index_lock ''/work'')
          \<and> run_thread demo_host 0 (?w1\<lparr>disk := demo_fs\<rparr>) = (?w1\<lparr>disk := demo_fs\<rparr>, None)
          \<and> fire demo_host 0 (?w1\<lparr>disk := demo_fs\<rparr>) = (?w1\<lparr>disk := demo_fs\<rparr>, None)
          \<and> popen_calls (?w1\<lparr>disk := demo_fs\<rparr>) = []"
    using r b s ul by (simp add: f popen_calls_def)
  then have "\<exists>w1. RepoSyncCommand_run demo_host 1 locked_world = Some (w1, Some TypeError)
          \<and> threads w1 = [] \<and> timeouts w1 = [] \<and> popen_calls w1 = []
          \<and> \<not> os_path_exists (disk (w1\<lparr>disk := demo_fs\<rparr>)) (index_lock ''/work'')
          \<and> run_thread demo_host 0 (w1\<lparr>disk := demo_fs\<rparr>) = (w1\<lparr>disk := demo_fs\<rparr>, None)
          \<and> fire demo_host 0 (w1\<lparr>disk := demo_fs\<rparr>) = (w1\<lparr>disk := demo_fs\<rparr>, None)
          \<and> popen_calls (w1\<lparr>disk := demo_fs\<rparr>) = []"
    by (rule exI [of _ ?w1])
  then show ?thesis
    using lk wt by (intro conjI)
qed

end
